theory Spec2Isabelle
  imports Main "HOL-Library.Char_ord" "HOL-Library.List_Lexorder" "HOL-Library.AList"
begin

section \<open>Python string primitives used by \<open>bin/check_samplesheet.py\<close>\<close>

text \<open>
  Strings are lists of characters with code points below 256. \<open>str.strip()\<close> removes the
  white space characters of Python in that range (\<open>\t \n \v \f \r\<close>, \<open>0x1c\<close> .. \<open>0x1f\<close>,
  the space, \<open>0x85\<close> and \<open>0xa0\<close>), and \<open>sorted\<close> compares strings character by
  character, by code point, which is the lexicographic order of
  \<open>HOL-Library.List_Lexorder\<close> over \<open>HOL-Library.Char_ord\<close>.
\<close>

definition NL :: char where
  "NL = CHR 0x0A"

definition QUOTE :: char where
  "QUOTE = CHR 0x22"

definition APOS :: char where
  "APOS = CHR 0x27"

definition isspace :: "char \<Rightarrow> bool" where
  "isspace c = (c \<in> set [CHR 0x20, CHR 0x09, CHR 0x0A, CHR 0x0B, CHR 0x0C, CHR 0x0D,
                          CHR 0x1C, CHR 0x1D, CHR 0x1E, CHR 0x1F, CHR 0x85, CHR 0xA0])"

text \<open>\<open>s.strip(chars)\<close>: drop the characters of the class from both ends.\<close>

definition strip_chars :: "(char \<Rightarrow> bool) \<Rightarrow> string \<Rightarrow> string" where
  "strip_chars p s = rev (dropWhile p (rev (dropWhile p s)))"

definition strip :: "string \<Rightarrow> string" where
  "strip s = strip_chars isspace s"

definition strip_quote :: "string \<Rightarrow> string" where
  "strip_quote s = strip_chars (\<lambda>c. c = QUOTE) s"

text \<open>\<open>s.split(",")\<close>: always at least one field.\<close>

fun split :: "char \<Rightarrow> string \<Rightarrow> string list" where
  "split sep [] = [[]]"
| "split sep (c # cs) =
     (if c = sep then [] # split sep cs
      else (case split sep cs of
              [] \<Rightarrow> [[c]]
            | f # fs \<Rightarrow> (c # f) # fs))"

text \<open>\<open>sep.join(xs)\<close>.\<close>

fun join :: "string \<Rightarrow> string list \<Rightarrow> string" where
  "join sep [] = []"
| "join sep [x] = x"
| "join sep (x # y # ys) = x @ sep @ join sep (y # ys)"

text \<open>\<open>s.replace(" ", "_")\<close> for single characters.\<close>

definition replace :: "char \<Rightarrow> char \<Rightarrow> string \<Rightarrow> string" where
  "replace a b s = map (\<lambda>c. if c = a then b else c) s"

definition endswith :: "string \<Rightarrow> string \<Rightarrow> bool" where
  "endswith s suf = (length suf \<le> length s \<and> drop (length s - length suf) s = suf)"

text \<open>\<open>s.find(" ") != -1\<close>.\<close>

definition contains_space :: "string \<Rightarrow> bool" where
  "contains_space s = (CHR 0x20 \<in> set s)"

text \<open>\<open>"{}".format(n)\<close> for a non-negative integer: its decimal digits.\<close>

definition digit_char :: "nat \<Rightarrow> char" where
  "digit_char n = char_of (48 + n)"

function str_nat :: "nat \<Rightarrow> string" where
  "str_nat n = (if n < 10 then [digit_char n] else str_nat (n div 10) @ [digit_char (n mod 10)])"
  by pat_completeness auto
termination
  by (relation "measure (\<lambda>n. n)") auto

declare str_nat.simps [simp del]

section \<open>Error reporting\<close>

text \<open>
  \<open>print_error\<close> prints one message and calls \<open>sys.exit(1)\<close>. The model returns the
  printed text (without the newline that \<open>print\<close> adds); a caller that receives it stops.
  The context is printed only when both \<open>context\<close> and \<open>context_str\<close> are non-empty.
\<close>

definition print_error :: "string \<Rightarrow> string \<Rightarrow> string \<Rightarrow> string" where
  "print_error error context context_str =
     (if context \<noteq> [] \<and> context_str \<noteq> [] then
        ''ERROR: Please check samplesheet -> '' @ error @ [NL] @ strip context @ '': '' @
          [APOS] @ strip context_str @ [APOS]
      else ''ERROR: Please check samplesheet -> '' @ error)"

section \<open>The sample mapping\<close>

text \<open>
  \<open>sample_mapping_dict\<close> maps a sample name to the list of its recorded tuples
  (\<open>sample_info\<close>, a Python list of strings). It is an association list in insertion
  order with distinct keys.
\<close>

type_synonym sample_info = "string list"
type_synonym mapping_dict = "(string \<times> sample_info list) list"

text \<open>Lines 284-291 and 338-345 (the same code in both modes).\<close>

definition record_sample :: "mapping_dict \<Rightarrow> string \<Rightarrow> sample_info \<Rightarrow> string \<Rightarrow> string + mapping_dict" where
  "record_sample d sample info line =
     (case map_of d sample of
        None \<Rightarrow> Inr (AList.update sample [info] d)
      | Some infos \<Rightarrow>
          if info \<in> set infos then
            Inl (print_error ''Samplesheet contains duplicate rows!'' ''Line'' line)
          else Inr (AList.update sample (infos @ [info]) d))"

section \<open>Reading the rows\<close>

definition MIN_COLS :: nat where
  "MIN_COLS = 2"

definition HEADER_BAM :: "string list" where
  "HEADER_BAM = [''sample'', ''bam'']"

text \<open>
  Modelled from the spec: the first lines of the FASTQ branch (the required header and
  the header comparison) are not in the source file; the spec gives the FASTQ header as
  \<open>sample,fastq_1,fastq_2\<close> and the minimum of populated columns as 2, and the three-way
  unpacking of line 259 fixes the length 3.
\<close>

definition HEADER_FASTQ :: "string list" where
  "HEADER_FASTQ = [''sample'', ''fastq_1'', ''fastq_2'']"

text \<open>\<open>[x.strip().strip('"') for x in line.strip().split(",")]\<close>\<close>

definition row_fields :: "string \<Rightarrow> string list" where
  "row_fields line = map (\<lambda>x. strip_quote (strip x)) (split (CHR '','') (strip line))"

definition populated :: "string list \<Rightarrow> nat" where
  "populated lspl = length (filter (\<lambda>x. x \<noteq> []) lspl)"

definition invalid_columns :: "nat \<Rightarrow> string \<Rightarrow> string" where
  "invalid_columns n line =
     print_error (''Invalid number of columns (minimum = '' @ str_nat n @ '')!'') ''Line'' line"

definition invalid_populated :: "nat \<Rightarrow> string \<Rightarrow> string" where
  "invalid_populated n line =
     print_error (''Invalid number of populated columns (minimum = '' @ str_nat n @ '')!'')
       ''Line'' line"

definition fastq_extension_msg :: string where
  "fastq_extension_msg =
     ''FastQ file does not have extension '' @ [APOS] @ ''.fastq.gz'' @ [APOS] @ '' or '' @
     [APOS] @ ''.fq.gz'' @ [APOS] @ ''!''"

definition bam_extension_msg :: string where
  "bam_extension_msg = ''Bam file does not have extension '' @ [APOS] @ ''.bam'' @ [APOS] @ ''!''"

text \<open>Lines 265-274: the checks of one FASTQ file field; \<open>None\<close> when it passes.\<close>

definition check_fastq :: "string \<Rightarrow> string \<Rightarrow> string option" where
  "check_fastq fastq line =
     (if fastq \<noteq> [] then
        (if contains_space fastq then Some (print_error ''FastQ file contains spaces!'' ''Line'' line)
         else if \<not> endswith fastq ''.fastq.gz'' \<and> \<not> endswith fastq ''.fq.gz'' then
           Some (print_error fastq_extension_msg ''Line'' line)
         else None)
      else None)"

text \<open>Lines 241-274: the checks of a FASTQ row before the pairing classification.\<close>

definition fastq_checks :: "string \<Rightarrow> string + (string \<times> string \<times> string)" where
  "fastq_checks line =
     (let lspl = row_fields line in
      if length lspl < length HEADER_FASTQ then Inl (invalid_columns (length HEADER_FASTQ) line)
      else if populated lspl < MIN_COLS then Inl (invalid_populated MIN_COLS line)
      else
        (let sample = replace (CHR 0x20) (CHR ''_'') (lspl ! 0);
             fastq_1 = lspl ! 1;
             fastq_2 = lspl ! 2
         in if sample = [] then
              Inl (print_error ''Sample entry has not been specified!'' ''Line'' line)
            else (case check_fastq fastq_1 line of
                    Some e \<Rightarrow> Inl e
                  | None \<Rightarrow>
                      (case check_fastq fastq_2 line of
                         Some e \<Rightarrow> Inl e
                       | None \<Rightarrow> Inr (sample, fastq_1, fastq_2)))))"

text \<open>Lines 275-282: the pairing classification.\<close>

definition classify :: "string \<Rightarrow> string \<Rightarrow> string \<Rightarrow> string \<Rightarrow> string + sample_info" where
  "classify sample fastq_1 fastq_2 line =
     (if sample \<noteq> [] \<and> fastq_1 \<noteq> [] \<and> fastq_2 \<noteq> [] then Inr [''0'', fastq_1, fastq_2]
      else if sample \<noteq> [] \<and> fastq_1 \<noteq> [] \<and> fastq_2 = [] then Inr [''1'', fastq_1, fastq_2]
      else Inl (print_error ''Invalid combination of columns provided!'' ''Line'' line))"

definition fastq_row :: "string \<Rightarrow> string + (string \<times> sample_info)" where
  "fastq_row line =
     (case fastq_checks line of
        Inl e \<Rightarrow> Inl e
      | Inr (sample, fastq_1, fastq_2) \<Rightarrow>
          (case classify sample fastq_1 fastq_2 line of
             Inl e \<Rightarrow> Inl e
           | Inr info \<Rightarrow> Inr (sample, info)))"

text \<open>Lines 303-336: a BAM row.\<close>

definition bam_row :: "string \<Rightarrow> string + (string \<times> sample_info)" where
  "bam_row line =
     (let lspl = row_fields line in
      if length lspl < length HEADER_BAM then Inl (invalid_columns (length HEADER_BAM) line)
      else if populated lspl < MIN_COLS then Inl (invalid_populated MIN_COLS line)
      else
        (let sample = replace (CHR 0x20) (CHR ''_'') (lspl ! 0);
             bam = lspl ! 1
         in if sample = [] then
              Inl (print_error ''Sample entry has not been specified!'' ''Line'' line)
            else if bam \<noteq> [] \<and> contains_space bam then
              Inl (print_error ''BAM file contains spaces!'' ''Line'' line)
            else if bam \<noteq> [] \<and> \<not> endswith bam ''.bam'' then
              Inl (print_error bam_extension_msg ''Line'' line)
            else Inr (sample, [''1'', bam])))"

text \<open>The loops \<open>for line in fin\<close> of the two modes; the first fatal error ends them.\<close>

fun fastq_entries :: "mapping_dict \<Rightarrow> string list \<Rightarrow> string + mapping_dict" where
  "fastq_entries d [] = Inr d"
| "fastq_entries d (line # lines) =
     (case fastq_row line of
        Inl e \<Rightarrow> Inl e
      | Inr (sample, info) \<Rightarrow>
          (case record_sample d sample info line of
             Inl e \<Rightarrow> Inl e
           | Inr d' \<Rightarrow> fastq_entries d' lines))"

fun bam_entries :: "mapping_dict \<Rightarrow> string list \<Rightarrow> string + mapping_dict" where
  "bam_entries d [] = Inr d"
| "bam_entries d (line # lines) =
     (case bam_row line of
        Inl e \<Rightarrow> Inl e
      | Inr (sample, info) \<Rightarrow>
          (case record_sample d sample info line of
             Inl e \<Rightarrow> Inl e
           | Inr d' \<Rightarrow> bam_entries d' lines))"

text \<open>
  The input file is the list of its lines. \<open>fin.readline()\<close> returns the first line, or
  the empty string at the end of the file; the loop reads the remaining lines.

  The BAM branch (lines 293-299) compares the first columns of the header line with
  \<open>HEADER\<close> and stops with the header message when they differ. The FASTQ branch does
  the same with its own header: its test of the format and its header comparison are
  among the lines that are not in the source file, and are written here after the BAM
  branch and the specification (the header must start with the required columns). A
  format that is neither \<open>FASTQ\<close> nor \<open>BAM\<close> reaches the \<open>else\<close> of lines 347-349
  before anything is read.
\<close>

definition read_header :: "string list \<Rightarrow> string list" where
  "read_header fin =
     map strip_quote (split (CHR '','') (strip (case fin of [] \<Rightarrow> [] | l # _ \<Rightarrow> l)))"

definition header_error :: "string list \<Rightarrow> string list \<Rightarrow> string" where
  "header_error header HEADER =
     ''ERROR: Please check samplesheet header -> '' @ join '','' header @ '' != '' @
     join '','' HEADER"

definition invalid_format :: string where
  "invalid_format =
     print_error (''INPUT_FORMAT needs to be either '' @ [APOS] @ ''FASTQ'' @ [APOS] @ '' or '' @
                  [APOS] @ ''BAM'' @ [APOS]) ''Line'' ''''"

definition read_samplesheet :: "string list \<Rightarrow> string \<Rightarrow> string + mapping_dict" where
  "read_samplesheet fin input_format =
     (if input_format = ''FASTQ'' then
        (let header = read_header fin in
         if take (length HEADER_FASTQ) header \<noteq> HEADER_FASTQ then
           Inl (header_error header HEADER_FASTQ)
         else fastq_entries [] (tl fin))
      else if input_format = ''BAM'' then
        (let header = read_header fin in
         if take (length HEADER_BAM) header \<noteq> HEADER_BAM then
           Inl (header_error header HEADER_BAM)
         else bam_entries [] (tl fin))
      else Inl invalid_format)"

section \<open>Writing the validated samplesheet\<close>

definition FASTQ_OUT_HEADER :: string where
  "FASTQ_OUT_HEADER = join '','' [''sample'', ''single_end'', ''fastq_1'', ''fastq_2''] @ [NL]"

definition BAM_OUT_HEADER :: string where
  "BAM_OUT_HEADER = join '','' [''sample'', ''idx'', ''bam''] @ [NL]"

definition datatype_error :: "string \<Rightarrow> string" where
  "datatype_error sample =
     print_error ''Multiple runs of a sample must be of the same datatype!''
       (''Sample: '' @ sample) ''''"

text \<open>Line 360: every run has the flag of the first run.\<close>

definition same_datatype :: "sample_info list \<Rightarrow> bool" where
  "same_datatype runs = list_all (\<lambda>x. x ! 0 = runs ! 0 ! 0) runs"

text \<open>Lines 366-367: the rows of one sample, numbered from 1.\<close>

definition fastq_lines :: "string \<Rightarrow> sample_info list \<Rightarrow> string" where
  "fastq_lines sample runs =
     concat (map (\<lambda>(idx, val). join '','' ((sample @ ''_T'' @ str_nat (idx + 1)) # val) @ [NL])
                 (enumerate 0 runs))"

text \<open>Lines 371-372: the rows of one sample in BAM mode; \<open>idx\<close> is not used.\<close>

definition bam_lines :: "string \<Rightarrow> sample_info list \<Rightarrow> string" where
  "bam_lines sample runs =
     concat (map (\<lambda>(idx, val). join '','' (sample # val) @ [NL]) (enumerate 0 runs))"

text \<open>
  Lines 358-367. The result is the message of the fatal error, if any, and the text
  written so far: the file is closed, and so flushed, when \<open>sys.exit\<close> leaves the
  \<open>with\<close> block. A key that is not in the dictionary would raise \<open>KeyError\<close>.
\<close>

fun write_fastq :: "mapping_dict \<Rightarrow> string list \<Rightarrow> string \<Rightarrow> string option \<times> string" where
  "write_fastq d [] out = (None, out)"
| "write_fastq d (sample # samples) out =
     (case map_of d sample of
        None \<Rightarrow> (Some ''KeyError'', out)
      | Some runs \<Rightarrow>
          if \<not> same_datatype runs then (Some (datatype_error sample), out)
          else write_fastq d samples (out @ fastq_lines sample runs))"

fun write_bam :: "mapping_dict \<Rightarrow> string list \<Rightarrow> string \<Rightarrow> string option \<times> string" where
  "write_bam d [] out = (None, out)"
| "write_bam d (sample # samples) out =
     (case map_of d sample of
        None \<Rightarrow> (Some ''KeyError'', out)
      | Some runs \<Rightarrow> write_bam d samples (out @ bam_lines sample runs))"

section \<open>The whole run\<close>

text \<open>
  \<open>fatal\<close> is the message printed before \<open>sys.exit(1)\<close>, \<open>None\<close> when the function
  returns normally; \<open>out_file\<close> is the content of the output file, \<open>None\<close> when it was
  never opened.
\<close>

record run =
  fatal :: "string option"
  out_file :: "string option"

definition check_samplesheet :: "string \<Rightarrow> string list \<Rightarrow> string \<Rightarrow> run" where
  "check_samplesheet file_in fin input_format =
     (case read_samplesheet fin input_format of
        Inl e \<Rightarrow> \<lparr>fatal = Some e, out_file = None\<rparr>
      | Inr sample_mapping_dict \<Rightarrow>
          if length sample_mapping_dict > 0 then
            (if input_format = ''FASTQ'' then
               (case write_fastq sample_mapping_dict (sort (map fst sample_mapping_dict))
                       FASTQ_OUT_HEADER of
                  (e, out) \<Rightarrow> \<lparr>fatal = e, out_file = Some out\<rparr>)
             else if input_format = ''BAM'' then
               (case write_bam sample_mapping_dict (sort (map fst sample_mapping_dict))
                       BAM_OUT_HEADER of
                  (e, out) \<Rightarrow> \<lparr>fatal = e, out_file = Some out\<rparr>)
             else \<lparr>fatal = None, out_file = Some []\<rparr>)
          else
            \<lparr>fatal = Some (print_error ''No entries to process!'' (''Samplesheet: '' @ file_in) ''''),
             out_file = None\<rparr>)"

section \<open>Specification of the grouping and of the output\<close>

text \<open>
  The definitions of this section follow the words of the specification, not the code:
  the rows that passed the checks, in the order of the file, as pairs of sample name and
  recorded tuple; the group of a sample; the numbered output rows.
  \<open>entries\<close> is the common shape of the two reading loops, and \<open>groups rows d\<close> says
  that the dictionary \<open>d\<close> holds exactly the rows, grouped by sample in encounter order.
  \<open>recorded d sample\<close> is the list of tuples the dictionary holds for a sample, empty
  when the sample is not a key; \<open>spec_fastq_rows\<close> and \<open>spec_bam_rows\<close> are the output
  rows as a list of lines.
\<close>

fun entries :: "(string \<Rightarrow> string + (string \<times> sample_info)) \<Rightarrow> mapping_dict \<Rightarrow> string list \<Rightarrow>
    string + mapping_dict" where
  "entries row d [] = Inr d"
| "entries row d (line # lines) =
     (case row line of
        Inl e \<Rightarrow> Inl e
      | Inr (sample, info) \<Rightarrow>
          (case record_sample d sample info line of
             Inl e \<Rightarrow> Inl e
           | Inr d' \<Rightarrow> entries row d' lines))"

definition runs_of :: "string \<Rightarrow> (string \<times> sample_info) list \<Rightarrow> sample_info list" where
  "runs_of s rows = map snd (filter (\<lambda>r. fst r = s) rows)"

definition groups :: "(string \<times> sample_info) list \<Rightarrow> mapping_dict \<Rightarrow> bool" where
  "groups rows d =
     (distinct (map fst d) \<and>
      (\<forall>s. map_of d s = (if s \<in> fst ` set rows then Some (runs_of s rows) else None)))"

definition duplicate_rows :: "string \<Rightarrow> string" where
  "duplicate_rows line = print_error ''Samplesheet contains duplicate rows!'' ''Line'' line"

definition spec_fastq_lines :: "string \<Rightarrow> sample_info list \<Rightarrow> string" where
  "spec_fastq_lines s runs =
     concat (map (\<lambda>(n, info). join '','' ((s @ ''_T'' @ str_nat n) # info) @ [NL])
                 (enumerate 1 runs))"

definition spec_fastq_output :: "(string \<times> sample_info) list \<Rightarrow> string" where
  "spec_fastq_output rows =
     ''sample,single_end,fastq_1,fastq_2'' @ [NL] @
     concat (map (\<lambda>s. spec_fastq_lines s (runs_of s rows)) (sort (remdups (map fst rows))))"

definition consistent :: "(string \<times> sample_info) list \<Rightarrow> bool" where
  "consistent rows =
     (\<forall>r1 \<in> set rows. \<forall>r2 \<in> set rows. fst r1 = fst r2 \<longrightarrow> snd r1 ! 0 = snd r2 ! 0)"

definition recorded :: "mapping_dict \<Rightarrow> string \<Rightarrow> sample_info list" where
  "recorded d sample = (case map_of d sample of None \<Rightarrow> [] | Some infos \<Rightarrow> infos)"

definition spec_bam_rows :: "(string \<times> sample_info) list \<Rightarrow> string list" where
  "spec_bam_rows rows =
     concat (map (\<lambda>s. map (\<lambda>info. join '','' (s # info) @ [NL]) (runs_of s rows))
                 (sort (remdups (map fst rows))))"


section \<open>Auxiliary facts\<close>

lemma fastq_entries_eq: "fastq_entries d lines = entries fastq_row d lines"
  by (induction lines arbitrary: d) (auto split: sum.splits)

lemma bam_entries_eq: "bam_entries d lines = entries bam_row d lines"
  by (induction lines arbitrary: d) (auto split: sum.splits)

lemma groups_Nil: "groups [] []"
  by (simp add: groups_def)

lemma in_runs_of: "info \<in> set (runs_of s rows) \<longleftrightarrow> (s, info) \<in> set rows"
  by (force simp: runs_of_def)

lemma runs_of_append: "runs_of s (rows @ new) = runs_of s rows @ runs_of s new"
  by (simp add: runs_of_def)

lemma runs_of_empty: "s \<notin> fst ` set rows \<Longrightarrow> runs_of s rows = []"
  by (auto simp: runs_of_def filter_empty_conv)


lemma record_new:
  assumes "groups rows d" and "(s, info) \<notin> set rows"
  shows "\<exists>d'. record_sample d s info line = Inr d' \<and> groups (rows @ [(s, info)]) d'"
proof (cases "s \<in> fst ` set rows")
  case True
  with assms(1) have m: "map_of d s = Some (runs_of s rows)" by (simp add: groups_def)
  let ?d = "AList.update s (runs_of s rows @ [info]) d"
  have "record_sample d s info line = Inr ?d"
    using m assms(2) by (simp add: record_sample_def in_runs_of)
  moreover have "groups (rows @ [(s, info)]) ?d"
    using assms(1) True
    by (auto simp: groups_def distinct_update update_conv' runs_of_append runs_of_def)
  ultimately show ?thesis by blast
next
  case False
  with assms(1) have m: "map_of d s = None" by (simp add: groups_def)
  let ?d = "AList.update s [info] d"
  have "record_sample d s info line = Inr ?d"
    using m by (simp add: record_sample_def)
  moreover have "groups (rows @ [(s, info)]) ?d"
    using assms(1) False
    by (auto simp: groups_def distinct_update update_conv' runs_of_append runs_of_def
        filter_empty_conv)
  ultimately show ?thesis by blast
qed

lemma entries_success:
  "groups rows d \<Longrightarrow> map row lines = map Inr new \<Longrightarrow> distinct (rows @ new) \<Longrightarrow>
   \<exists>d'. entries row d lines = Inr d' \<and> groups (rows @ new) d'"
proof (induction lines arbitrary: d rows new)
  case Nil
  then show ?case by simp
next
  case (Cons line lines)
  from Cons.prems(2) obtain r new' where new: "new = r # new'" and r: "row line = Inr r"
    and rest: "map row lines = map Inr new'"
    by (cases new) auto
  obtain s info where sr: "r = (s, info)" by (cases r)
  from Cons.prems(3) new sr have notin: "(s, info) \<notin> set rows" by auto
  from record_new [OF Cons.prems(1) notin, of line] obtain d1
    where d1: "record_sample d s info line = Inr d1" and g1: "groups (rows @ [(s, info)]) d1"
    by blast
  from Cons.prems(3) new sr have "distinct ((rows @ [(s, info)]) @ new')" by auto
  from Cons.IH [OF g1 rest this] obtain d' where
    "entries row d1 lines = Inr d'" "groups ((rows @ [(s, info)]) @ new') d'" by blast
  then show ?case using r sr d1 new by simp
qed

lemma fastq_lines_spec: "fastq_lines s runs = spec_fastq_lines s runs"
proof -
  have "enumerate 1 runs = map (apfst Suc) (enumerate 0 runs)"
    using enumerate_Suc_eq [of 0 runs] by simp
  then show ?thesis
    by (simp add: fastq_lines_def spec_fastq_lines_def comp_def case_prod_unfold)
qed

lemma same_datatype_iff:
  "same_datatype runs \<longleftrightarrow> (\<forall>x \<in> set runs. \<forall>y \<in> set runs. x ! 0 = y ! 0)"
proof (cases runs)
  case Nil
  then show ?thesis by (simp add: same_datatype_def)
next
  case (Cons r rs)
  then show ?thesis by (auto simp: same_datatype_def list_all_iff)
qed

lemma consistent_iff: "consistent rows \<longleftrightarrow> (\<forall>s. same_datatype (runs_of s rows))"
proof
  assume c: "consistent rows"
  show "\<forall>s. same_datatype (runs_of s rows)"
  proof
    fix s
    have "x ! 0 = y ! 0" if "x \<in> set (runs_of s rows)" and "y \<in> set (runs_of s rows)" for x y
    proof -
      from that have "(s, x) \<in> set rows" and "(s, y) \<in> set rows" by (simp_all add: in_runs_of)
      with c have "snd (s, x) ! 0 = snd (s, y) ! 0" unfolding consistent_def by fastforce
      then show ?thesis by simp
    qed
    then show "same_datatype (runs_of s rows)" unfolding same_datatype_iff by blast
  qed
next
  assume a: "\<forall>s. same_datatype (runs_of s rows)"
  show "consistent rows"
    unfolding consistent_def
  proof (intro ballI impI)
    fix r1 r2
    assume "r1 \<in> set rows" and "r2 \<in> set rows" and "fst r1 = fst r2"
    then have "snd r1 \<in> set (runs_of (fst r1) rows)" and "snd r2 \<in> set (runs_of (fst r1) rows)"
      by (metis in_runs_of prod.collapse)+
    with a show "snd r1 ! 0 = snd r2 ! 0" unfolding same_datatype_iff by blast
  qed
qed

lemma write_fastq_ok:
  "(\<forall>k \<in> set ks. map_of d k = Some (R k) \<and> same_datatype (R k)) \<Longrightarrow>
   write_fastq d ks out = (None, out @ concat (map (\<lambda>k. fastq_lines k (R k)) ks))"
  by (induction ks arbitrary: out) auto

lemma write_fastq_fail:
  "(\<forall>k \<in> set pre. map_of d k = Some (R k) \<and> same_datatype (R k)) \<Longrightarrow>
   map_of d s = Some (R s) \<Longrightarrow> \<not> same_datatype (R s) \<Longrightarrow>
   write_fastq d (pre @ s # post) out =
     (Some (datatype_error s), out @ concat (map (\<lambda>k. fastq_lines k (R k)) pre))"
  by (induction pre arbitrary: out) auto

lemma write_bam_ok:
  "(\<forall>k \<in> set ks. map_of d k = Some (R k)) \<Longrightarrow>
   write_bam d ks out = (None, out @ concat (map (\<lambda>k. bam_lines k (R k)) ks))"
  by (induction ks arbitrary: out) auto

lemma groups_keys: "groups rows d \<Longrightarrow> set (map fst d) = fst ` set rows"
proof -
  assume g: "groups rows d"
  have "set (map fst d) = dom (map_of d)" by (simp add: dom_map_of_conv_image_fst)
  also have "\<dots> = fst ` set rows" using g by (auto simp: groups_def dom_def)
  finally show ?thesis .
qed

lemma groups_sort_keys:
  assumes "groups rows d"
  shows "sort (map fst d) = sort (remdups (map fst rows))"
proof (rule sorted_distinct_set_unique)
  show "distinct (sort (map fst d))" using assms by (simp add: groups_def)
  show "set (sort (map fst d)) = set (sort (remdups (map fst rows)))"
    using groups_keys [OF assms] by simp
qed simp_all

lemma groups_lookup:
  "groups rows d \<Longrightarrow> k \<in> set (sort (map fst d)) \<Longrightarrow> map_of d k = Some (runs_of k rows)"
  using groups_keys [of rows d] by (simp add: groups_def)

lemma groups_nonempty: "groups rows d \<Longrightarrow> rows \<noteq> [] \<Longrightarrow> 0 < length d"
  using groups_keys [of rows d] by (cases d) auto

lemma entries_append:
  "entries row d (pre @ rest) =
     (case entries row d pre of Inl e \<Rightarrow> Inl e | Inr d' \<Rightarrow> entries row d' rest)"
  by (induction pre arbitrary: d) (auto split: sum.splits)

lemma entries_row_fails:
  "entries row d pre = Inr d1 \<Longrightarrow> row line = Inl e \<Longrightarrow> entries row d (pre @ line # post) = Inl e"
  by (simp add: entries_append)

lemma read_fails_no_output:
  "read_samplesheet fin input_format = Inl e \<Longrightarrow>
   check_samplesheet file_in fin input_format = \<lparr>fatal = Some e, out_file = None\<rparr>"
  by (simp add: check_samplesheet_def)

lemma fastq_checks_sample: "fastq_checks line = Inr (sample, fastq_1, fastq_2) \<Longrightarrow> sample \<noteq> []"
  by (auto simp: fastq_checks_def Let_def split: if_splits option.splits)

lemma sorted_distinct_filter_less:
  fixes s :: "'a :: linorder"
  assumes "sorted (pre @ s # post)" and "distinct (pre @ s # post)"
  shows "filter (\<lambda>k. k < s) (pre @ s # post) = pre"
proof -
  have "\<forall>k \<in> set pre. k < s"
    using assms by (auto simp: sorted_append less_le)
  moreover have "\<forall>k \<in> set post. \<not> k < s"
    using assms by (auto simp: sorted_append)
  ultimately show ?thesis by (simp add: filter_empty_conv)
qed

lemma same_datatype_no_runs: "s \<notin> fst ` set rows \<Longrightarrow> same_datatype (runs_of s rows)"
  by (simp add: runs_of_empty same_datatype_def)

lemma print_error_inj: "print_error e1 c l = print_error e2 c l \<longleftrightarrow> e1 = e2"
  by (simp add: print_error_def)

lemma str_nat_2: "str_nat 2 = ''2''"
  by code_simp

lemma str_nat_3: "str_nat 3 = ''3''"
  by code_simp

lemma fastq_row_columns:
  "fastq_row line = Inl (invalid_columns (length HEADER_FASTQ) line) \<longleftrightarrow>
   length (row_fields line) < length HEADER_FASTQ"
  by (auto simp: fastq_row_def fastq_checks_def classify_def check_fastq_def Let_def
      invalid_columns_def invalid_populated_def print_error_inj fastq_extension_msg_def
      split: if_splits option.splits sum.splits)

lemma bam_row_columns:
  "bam_row line = Inl (invalid_columns (length HEADER_BAM) line) \<longleftrightarrow>
   length (row_fields line) < length HEADER_BAM"
  by (auto simp: bam_row_def Let_def invalid_columns_def invalid_populated_def print_error_inj
      bam_extension_msg_def)

lemma fastq_run_row_fails:
  assumes "take (length HEADER_FASTQ) (read_header fin) = HEADER_FASTQ"
    and "tl fin = pre @ line # post" and "fastq_entries [] pre = Inr d"
    and "fastq_row line = Inl e"
  shows "check_samplesheet file_in fin ''FASTQ'' = \<lparr>fatal = Some e, out_file = None\<rparr>"
proof -
  have "fastq_entries [] (tl fin) = Inl e"
    using assms(2,3,4) by (simp add: fastq_entries_eq entries_append)
  then have "read_samplesheet fin ''FASTQ'' = Inl e"
    using assms(1) by (simp add: read_samplesheet_def)
  then show ?thesis by (rule read_fails_no_output)
qed

lemma bam_run_row_fails:
  assumes "take (length HEADER_BAM) (read_header fin) = HEADER_BAM"
    and "tl fin = pre @ line # post" and "bam_entries [] pre = Inr d"
    and "bam_row line = Inl e"
  shows "check_samplesheet file_in fin ''BAM'' = \<lparr>fatal = Some e, out_file = None\<rparr>"
proof -
  have "bam_entries [] (tl fin) = Inl e"
    using assms(2,3,4) by (simp add: bam_entries_eq entries_append)
  then have "read_samplesheet fin ''BAM'' = Inl e"
    using assms(1) by (simp add: read_samplesheet_def)
  then show ?thesis by (rule read_fails_no_output)
qed

lemma invalid_columns_text:
  "line \<noteq> [] \<Longrightarrow>
   invalid_columns 3 line =
     ''ERROR: Please check samplesheet -> Invalid number of columns (minimum = 3)!'' @ [NL] @
     ''Line: '' @ [APOS] @ strip line @ [APOS]"
  "line \<noteq> [] \<Longrightarrow>
   invalid_columns 2 line =
     ''ERROR: Please check samplesheet -> Invalid number of columns (minimum = 2)!'' @ [NL] @
     ''Line: '' @ [APOS] @ strip line @ [APOS]"
   by (simp_all add: invalid_columns_def print_error_def str_nat_2 str_nat_3 strip_def
       strip_chars_def isspace_def)

lemma populated_le_length: "populated lspl \<le> length lspl"
  by (simp add: populated_def)

lemma replace_Nil_iff: "replace a b s = [] \<longleftrightarrow> s = []"
  by (simp add: replace_def)

lemma entries_some_row_fails:
  "line \<in> set lines \<Longrightarrow> row line = Inl e \<Longrightarrow> \<exists>e'. entries row d lines = Inl e'"
proof (induction lines arbitrary: d)
  case Nil
  then show ?case by simp
next
  case (Cons l ls)
  show ?case
  proof (cases "row l")
    case (Inl a)
    then show ?thesis by simp
  next
    case (Inr r)
    obtain s info where r: "r = (s, info)" by (cases r)
    show ?thesis
    proof (cases "record_sample d s info l")
      case (Inl a)
      then show ?thesis using Inr r by simp
    next
      case (Inr d')
      from Cons.prems \<open>row l = Inr r\<close> have "line \<in> set ls" by auto
      from Cons.IH [OF this Cons.prems(2), of d'] show ?thesis
        using \<open>row l = Inr r\<close> r Inr by simp
    qed
  qed
qed

lemma fastq_row_checks_first:
  assumes "length HEADER_FASTQ \<le> length (row_fields line)"
    and "MIN_COLS \<le> populated (row_fields line)"
    and "row_fields line ! 0 \<noteq> []"
    and "check_fastq (row_fields line ! 1) line = Some e"
  shows "fastq_row line = Inl e"
  using assms by (simp add: fastq_row_def fastq_checks_def Let_def replace_Nil_iff)

lemma fastq_row_checks_second:
  assumes "length HEADER_FASTQ \<le> length (row_fields line)"
    and "MIN_COLS \<le> populated (row_fields line)"
    and "row_fields line ! 0 \<noteq> []"
    and "check_fastq (row_fields line ! 1) line = None"
    and "check_fastq (row_fields line ! 2) line = Some e"
  shows "fastq_row line = Inl e"
  using assms by (simp add: fastq_row_def fastq_checks_def Let_def replace_Nil_iff)







lemma print_error_prefix:
  "print_error error context context_str =
     ''ERROR: Please check samplesheet -> '' @ error @
     (if context \<noteq> [] \<and> context_str \<noteq> [] then
        [NL] @ strip context @ '': '' @ [APOS] @ strip context_str @ [APOS]
      else [])"
  by (simp add: print_error_def)

lemma duplicate_rows_text:
  "duplicate_rows l =
     ''ERROR: Please check samplesheet -> Samplesheet contains duplicate rows!'' @
     (if l \<noteq> [] then [NL] @ ''Line: '' @ [APOS] @ strip l @ [APOS] else [])"
  by (simp add: duplicate_rows_def print_error_def strip_def strip_chars_def isspace_def)




lemma invalid_format_not_duplicate: "invalid_format \<noteq> duplicate_rows l"
  by (simp add: invalid_format_def print_error_prefix duplicate_rows_text)








lemma record_sample_repeat:
  "info \<in> set (recorded d sample) \<Longrightarrow>
   record_sample d sample info line = Inl (duplicate_rows line)"
  by (cases "map_of d sample") (simp_all add: recorded_def record_sample_def duplicate_rows_def)

lemma record_sample_fresh:
  "info \<notin> set (recorded d sample) \<Longrightarrow>
   \<exists>d'. record_sample d sample info line = Inr d' \<and>
        map_of d' = (map_of d)(sample \<mapsto> recorded d sample @ [info])"
  by (cases "map_of d sample") (simp_all add: recorded_def record_sample_def update_conv')

lemma fastq_entries_one_repeat:
  "fastq_row line = Inr (sample, info) \<Longrightarrow> info \<in> set (recorded d sample) \<Longrightarrow>
   fastq_entries d [line] = Inl (duplicate_rows line)"
  by (simp add: record_sample_repeat)

lemma fastq_entries_one_fresh:
  assumes "fastq_row line = Inr (sample, info)" and "info \<notin> set (recorded d sample)"
  shows "\<exists>d'. fastq_entries d [line] = Inr d' \<and>
           map_of d' = (map_of d)(sample \<mapsto> recorded d sample @ [info])"
proof -
  from record_sample_fresh [OF assms(2), of line] obtain d' where
    "record_sample d sample info line = Inr d'"
    "map_of d' = (map_of d)(sample \<mapsto> recorded d sample @ [info])" by blast
  then show ?thesis using assms(1) by simp
qed

lemma bam_entries_one_repeat:
  "bam_row line = Inr (sample, info) \<Longrightarrow> info \<in> set (recorded d sample) \<Longrightarrow>
   bam_entries d [line] = Inl (duplicate_rows line)"
  by (simp add: record_sample_repeat)

lemma bam_entries_one_fresh:
  assumes "bam_row line = Inr (sample, info)" and "info \<notin> set (recorded d sample)"
  shows "\<exists>d'. bam_entries d [line] = Inr d' \<and>
           map_of d' = (map_of d)(sample \<mapsto> recorded d sample @ [info])"
proof -
  from record_sample_fresh [OF assms(2), of line] obtain d' where
    "record_sample d sample info line = Inr d'"
    "map_of d' = (map_of d)(sample \<mapsto> recorded d sample @ [info])" by blast
  then show ?thesis using assms(1) by simp
qed

lemma map_enumerate_snd: "map (\<lambda>(idx, val). g val) (enumerate n xs) = map g xs"
  by (induction xs arbitrary: n) simp_all

lemma concat_concat_map: "concat (concat (map F ks)) = concat (map (\<lambda>k. concat (F k)) ks)"
  by (induction ks) simp_all

lemma bam_lines_rows:
  "bam_lines s runs = concat (map (\<lambda>info. join '','' (s # info) @ [NL]) runs)"
  by (simp add: bam_lines_def map_enumerate_snd)

lemma concat_spec_bam_rows:
  "concat (spec_bam_rows rows) =
   concat (map (\<lambda>s. bam_lines s (runs_of s rows)) (sort (remdups (map fst rows))))"
  by (simp add: spec_bam_rows_def bam_lines_rows concat_concat_map)

lemma in_spec_bam_rows:
  assumes "(s, info) \<in> set rows"
  shows "join '','' (s # info) @ [NL] \<in> set (spec_bam_rows rows)"
proof -
  from assms have "s \<in> set (sort (remdups (map fst rows)))" by force
  moreover from assms have "info \<in> set (runs_of s rows)" by (simp add: in_runs_of)
  ultimately show ?thesis by (auto simp: spec_bam_rows_def)
qed

lemma bam_valid_run:
  assumes header: "take (length HEADER_BAM) (read_header fin) = HEADER_BAM"
    and rows: "map bam_row (tl fin) = map Inr rows"
    and nonempty: "rows \<noteq> []"
    and no_duplicates: "distinct rows"
  shows "check_samplesheet file_in fin ''BAM'' =
           \<lparr>fatal = None,
            out_file = Some (''sample,idx,bam'' @ [NL] @ concat (spec_bam_rows rows))\<rparr>"
proof -
  from entries_success [OF groups_Nil rows] no_duplicates obtain d
    where d: "entries bam_row [] (tl fin) = Inr d" and g: "groups rows d"
    by auto
  have read: "read_samplesheet fin ''BAM'' = Inr d"
    using header d by (simp add: read_samplesheet_def bam_entries_eq)
  have "\<forall>k \<in> set (sort (map fst d)). map_of d k = Some (runs_of k rows)"
    using groups_lookup [OF g] by simp
  from write_bam_ok [OF this]
  have "write_bam d (sort (map fst d)) BAM_OUT_HEADER =
          (None, ''sample,idx,bam'' @ [NL] @ concat (spec_bam_rows rows))"
    by (simp add: groups_sort_keys [OF g] concat_spec_bam_rows BAM_OUT_HEADER_def)
  then show ?thesis
    using read groups_nonempty [OF g nonempty] by (simp add: check_samplesheet_def)
qed

lemma row_in_parsed:
  assumes "line \<in> set lines" and "map row lines = map Inr rows" and "row line = Inr r"
  shows "r \<in> set rows"
proof -
  from assms(1) have "row line \<in> row ` set lines" by simp
  also have "row ` set lines = Inr ` set rows" using assms(2) by (metis set_map)
  finally show ?thesis using assms(3) by auto
qed










lemma fastq_row_file_fails:
  assumes "(1 < length (row_fields line) \<and> row_fields line ! 1 \<noteq> [] \<and>
            (contains_space (row_fields line ! 1) \<or>
             \<not> endswith (row_fields line ! 1) ''.fastq.gz'' \<and>
             \<not> endswith (row_fields line ! 1) ''.fq.gz'')) \<or>
           (2 < length (row_fields line) \<and> row_fields line ! 2 \<noteq> [] \<and>
            (contains_space (row_fields line ! 2) \<or>
             \<not> endswith (row_fields line ! 2) ''.fastq.gz'' \<and>
             \<not> endswith (row_fields line ! 2) ''.fq.gz''))"
  shows "\<exists>e. fastq_row line = Inl e"
proof -
  have sp: "(\<exists>e. check_fastq (row_fields line ! 1) line = Some e) \<or>
            (\<exists>e. check_fastq (row_fields line ! 2) line = Some e)"
    using assms by (auto simp: check_fastq_def)
  show ?thesis
    using sp
    by (auto simp: fastq_row_def fastq_checks_def classify_def Let_def
        split: option.splits)
qed

lemma bam_row_file_fails:
  assumes "1 < length (row_fields line)" and "row_fields line ! 1 \<noteq> []"
    and "contains_space (row_fields line ! 1) \<or> \<not> endswith (row_fields line ! 1) ''.bam''"
  shows "\<exists>e. bam_row line = Inl e"
  using assms by (auto simp: bam_row_def Let_def)

lemma fastq_failing_row_aborts:
  assumes "line \<in> set (tl fin)" and "fastq_row line = Inl e"
  shows "\<exists>e'. check_samplesheet file_in fin ''FASTQ'' = \<lparr>fatal = Some e', out_file = None\<rparr>"
proof -
  from entries_some_row_fails [of line "tl fin" fastq_row e "[]"] assms obtain e'
    where "fastq_entries [] (tl fin) = Inl e'" by (auto simp: fastq_entries_eq)
  then have "\<exists>e''. read_samplesheet fin ''FASTQ'' = Inl e''"
    by (simp add: read_samplesheet_def Let_def)
  then show ?thesis using read_fails_no_output by blast
qed

lemma bam_failing_row_aborts:
  assumes "line \<in> set (tl fin)" and "bam_row line = Inl e"
  shows "\<exists>e'. check_samplesheet file_in fin ''BAM'' = \<lparr>fatal = Some e', out_file = None\<rparr>"
proof -
  from entries_some_row_fails [of line "tl fin" bam_row e "[]"] assms obtain e'
    where "bam_entries [] (tl fin) = Inl e'" by (auto simp: bam_entries_eq)
  then have "\<exists>e''. read_samplesheet fin ''BAM'' = Inl e''"
    by (simp add: read_samplesheet_def Let_def)
  then show ?thesis using read_fails_no_output by blast
qed

section \<open>The FASTQ output\<close>

text \<open>
  Claim C1. In FASTQ mode, when the header is the required one, every row passes its
  checks, there is at least one row, no row repeats the tuple of an earlier row of its
  sample and the rows of a sample share one classification, the run returns normally and
  the output file is the header line \<open>sample,single_end,fastq_1,fastq_2\<close> followed by
  the rows grouped by sample name, the groups in lexicographic order of the name, each
  group in encounter order, with the sample written \<open>sample_Tn\<close>, \<open>n\<close> counting from 1
  within the group.
\<close>

theorem fastq_output_grouped:
  assumes header: "take (length HEADER_FASTQ) (read_header fin) = HEADER_FASTQ"
    and rows: "map fastq_row (tl fin) = map Inr rows"
    and nonempty: "rows \<noteq> []"
    and no_duplicates: "distinct rows"
    and same_type: "consistent rows"
  shows "check_samplesheet file_in fin ''FASTQ'' =
           \<lparr>fatal = None, out_file = Some (spec_fastq_output rows)\<rparr>"
proof -
  from entries_success [OF groups_Nil rows] no_duplicates obtain d
    where d: "entries fastq_row [] (tl fin) = Inr d" and g: "groups rows d"
    by auto
  have read: "read_samplesheet fin ''FASTQ'' = Inr d"
    using header d by (simp add: read_samplesheet_def fastq_entries_eq)
  have "\<forall>k \<in> set (sort (map fst d)).
          map_of d k = Some (runs_of k rows) \<and> same_datatype (runs_of k rows)"
    using groups_lookup [OF g] same_type by (simp add: consistent_iff)
  from write_fastq_ok [OF this]
  have "write_fastq d (sort (map fst d)) FASTQ_OUT_HEADER =
          (None, spec_fastq_output rows)"
    by (simp add: groups_sort_keys [OF g] fastq_lines_spec spec_fastq_output_def
        FASTQ_OUT_HEADER_def)
  then show ?thesis
    using read groups_nonempty [OF g nonempty] by (simp add: check_samplesheet_def)
qed

theorem fastq_output_grouped_witness:
  "check_samplesheet ''samplesheet.csv''
     [''sample,fastq_1,fastq_2'' @ [NL], ''S1,S1_R1.fastq.gz,S1_R2.fastq.gz'' @ [NL]] ''FASTQ'' =
   \<lparr>fatal = None,
    out_file = Some (''sample,single_end,fastq_1,fastq_2'' @ [NL] @
                     ''S1_T1,0,S1_R1.fastq.gz,S1_R2.fastq.gz'' @ [NL])\<rparr> \<and>
   check_samplesheet ''samplesheet.csv''
     [''sample,fastq_1,fastq_2'' @ [NL], ''B 1,b1.fq.gz,'' @ [NL], ''A,a_1.fq.gz,a_2.fq.gz'' @ [NL],
      ''B_1,b2.fq.gz,'' @ [NL]] ''FASTQ'' =
   \<lparr>fatal = None,
    out_file = Some (''sample,single_end,fastq_1,fastq_2'' @ [NL] @
                     ''A_T1,0,a_1.fq.gz,a_2.fq.gz'' @ [NL] @
                     ''B_1_T1,1,b1.fq.gz,'' @ [NL] @
                     ''B_1_T2,1,b2.fq.gz,'' @ [NL])\<rparr>"
proof -
  let ?fin = "[''sample,fastq_1,fastq_2'' @ [NL], ''S1,S1_R1.fastq.gz,S1_R2.fastq.gz'' @ [NL]]"
  let ?rows = "[(''S1'', [''0'', ''S1_R1.fastq.gz'', ''S1_R2.fastq.gz''])]"
  have h: "take (length HEADER_FASTQ) (read_header ?fin) = HEADER_FASTQ" by code_simp
  have r: "map fastq_row (tl ?fin) = map Inr ?rows" by code_simp
  have n: "?rows \<noteq> []" by simp
  have d: "distinct ?rows" by simp
  have c: "consistent ?rows" by (simp add: consistent_def)
  have o: "spec_fastq_output ?rows =
     ''sample,single_end,fastq_1,fastq_2'' @ [NL] @ ''S1_T1,0,S1_R1.fastq.gz,S1_R2.fastq.gz'' @ [NL]"
    by code_simp
  have 1: "check_samplesheet ''samplesheet.csv'' ?fin ''FASTQ'' =
      \<lparr>fatal = None,
       out_file = Some (''sample,single_end,fastq_1,fastq_2'' @ [NL] @
                        ''S1_T1,0,S1_R1.fastq.gz,S1_R2.fastq.gz'' @ [NL])\<rparr>"
    using fastq_output_grouped [OF h r n d c, of "''samplesheet.csv''"] o by simp
  let ?fin2 = "[''sample,fastq_1,fastq_2'' @ [NL], ''B 1,b1.fq.gz,'' @ [NL],
      ''A,a_1.fq.gz,a_2.fq.gz'' @ [NL], ''B_1,b2.fq.gz,'' @ [NL]]"
  let ?rows2 = "[(''B_1'', [''1'', ''b1.fq.gz'', []]), (''A'', [''0'', ''a_1.fq.gz'', ''a_2.fq.gz'']),
      (''B_1'', [''1'', ''b2.fq.gz'', []])]"
  have h2: "take (length HEADER_FASTQ) (read_header ?fin2) = HEADER_FASTQ" by code_simp
  have r2: "map fastq_row (tl ?fin2) = map Inr ?rows2" by code_simp
  have n2: "?rows2 \<noteq> []" by simp
  have d2: "distinct ?rows2" by simp
  have c2: "consistent ?rows2" by (simp add: consistent_def)
  have o2: "spec_fastq_output ?rows2 =
     ''sample,single_end,fastq_1,fastq_2'' @ [NL] @ ''A_T1,0,a_1.fq.gz,a_2.fq.gz'' @ [NL] @
     ''B_1_T1,1,b1.fq.gz,'' @ [NL] @ ''B_1_T2,1,b2.fq.gz,'' @ [NL]"
    by code_simp
  have 2: "check_samplesheet ''samplesheet.csv'' ?fin2 ''FASTQ'' =
      \<lparr>fatal = None,
       out_file = Some (''sample,single_end,fastq_1,fastq_2'' @ [NL] @
                        ''A_T1,0,a_1.fq.gz,a_2.fq.gz'' @ [NL] @
                        ''B_1_T1,1,b1.fq.gz,'' @ [NL] @
                        ''B_1_T2,1,b2.fq.gz,'' @ [NL])\<rparr>"
    using fastq_output_grouped [OF h2 r2 n2 d2 c2, of "''samplesheet.csv''"] o2 by simp
  show ?thesis using 1 2 by blast
qed

section \<open>The BAM index column\<close>

text \<open>
  Claim C2. The claim asks for a 1-based index in the \<open>idx\<close> column of each sample's
  rows. The code writes the constant first component \<open>1\<close> of the recorded tuple: two
  rows of one sample both get \<open>idx = 1\<close>.
\<close>

theorem bam_idx_constant:
  "check_samplesheet ''samplesheet.csv''
     [''sample,bam'' @ [NL], ''S1,a.bam'' @ [NL], ''S1,b.bam'' @ [NL]] ''BAM'' =
   \<lparr>fatal = None,
    out_file = Some (''sample,idx,bam'' @ [NL] @ ''S1,1,a.bam'' @ [NL] @ ''S1,1,b.bam'' @ [NL])\<rparr>"
  by code_simp

section \<open>Pairing classification\<close>

text \<open>
  Claim C3, as stated, has every row that is classified recorded with its flag. A row
  that repeats the tuple of an earlier row of its sample reaches the classification and
  is classified, but it is not recorded: the duplicate check that follows stops the run.
\<close>

theorem classified_duplicate_counterexample:
  "fastq_checks (''S1,a.fq.gz,'' @ [NL]) = Inr (''S1'', ''a.fq.gz'', []) \<and>
   fastq_row (''S1,a.fq.gz,'' @ [NL]) = Inr (''S1'', [''1'', ''a.fq.gz'', []]) \<and>
   fastq_entries [] [''S1,a.fq.gz,'' @ [NL]] = Inr [(''S1'', [[''1'', ''a.fq.gz'', []]])] \<and>
   fastq_entries [(''S1'', [[''1'', ''a.fq.gz'', []]])] [''S1,a.fq.gz,'' @ [NL]] =
     Inl (duplicate_rows (''S1,a.fq.gz,'' @ [NL])) \<and>
   check_samplesheet ''samplesheet.csv''
     [''sample,fastq_1,fastq_2'' @ [NL], ''S1,a.fq.gz,'' @ [NL], ''S1,a.fq.gz,'' @ [NL]] ''FASTQ'' =
     \<lparr>fatal = Some (duplicate_rows (''S1,a.fq.gz,'' @ [NL])), out_file = None\<rparr>"
  by code_simp

text \<open>
  Claim C3, amended. A FASTQ row that passed the checks before the classification (so its
  sample name is not empty) is classified single-end with flag \<open>1\<close> when \<open>fastq_1\<close> is
  given and \<open>fastq_2\<close> is empty, and paired-end with flag \<open>0\<close> when both are given.
  Whatever the mapping holds when the row is read, the tuple of flag and files is then
  appended to the tuples recorded for the sample, unless the same tuple is already
  recorded for it: then the run stops with the duplicate-rows message. In every other
  case, that is when \<open>fastq_1\<close> is empty, the row ends with the message
  \<open>Invalid combination of columns provided!\<close>, and a run that reaches such a row stops
  with that message and never opens the output file.
\<close>

theorem pairing_classification:
  assumes "fastq_checks line = Inr (sample, fastq_1, fastq_2)"
  shows "sample \<noteq> [] \<and>
         (fastq_1 \<noteq> [] \<and> fastq_2 = [] \<longrightarrow>
            fastq_row line = Inr (sample, [''1'', fastq_1, fastq_2]) \<and>
            (\<forall>d. [''1'', fastq_1, fastq_2] \<notin> set (recorded d sample) \<longrightarrow>
               (\<exists>d'. fastq_entries d [line] = Inr d' \<and>
                  map_of d' =
                    (map_of d)(sample \<mapsto> recorded d sample @ [[''1'', fastq_1, fastq_2]]))) \<and>
            (\<forall>d. [''1'', fastq_1, fastq_2] \<in> set (recorded d sample) \<longrightarrow>
               fastq_entries d [line] = Inl (duplicate_rows line))) \<and>
         (fastq_1 \<noteq> [] \<and> fastq_2 \<noteq> [] \<longrightarrow>
            fastq_row line = Inr (sample, [''0'', fastq_1, fastq_2]) \<and>
            (\<forall>d. [''0'', fastq_1, fastq_2] \<notin> set (recorded d sample) \<longrightarrow>
               (\<exists>d'. fastq_entries d [line] = Inr d' \<and>
                  map_of d' =
                    (map_of d)(sample \<mapsto> recorded d sample @ [[''0'', fastq_1, fastq_2]]))) \<and>
            (\<forall>d. [''0'', fastq_1, fastq_2] \<in> set (recorded d sample) \<longrightarrow>
               fastq_entries d [line] = Inl (duplicate_rows line))) \<and>
         (fastq_1 = [] \<longrightarrow>
            fastq_row line =
              Inl (print_error ''Invalid combination of columns provided!'' ''Line'' line) \<and>
            (\<forall>file_in fin pre post d.
               take (length HEADER_FASTQ) (read_header fin) = HEADER_FASTQ \<and>
               tl fin = pre @ line # post \<and> fastq_entries [] pre = Inr d \<longrightarrow>
               check_samplesheet file_in fin ''FASTQ'' =
                 \<lparr>fatal = Some (print_error ''Invalid combination of columns provided!''
                                   ''Line'' line),
                  out_file = None\<rparr>))"
proof -
  have s: "sample \<noteq> []" using assms by (rule fastq_checks_sample)
  have single: "fastq_row line = Inr (sample, [''1'', fastq_1, fastq_2])"
    if "fastq_1 \<noteq> [] \<and> fastq_2 = []"
    using assms s that by (simp add: fastq_row_def classify_def)
  have paired: "fastq_row line = Inr (sample, [''0'', fastq_1, fastq_2])"
    if "fastq_1 \<noteq> [] \<and> fastq_2 \<noteq> []"
    using assms s that by (simp add: fastq_row_def classify_def)
  have other: "fastq_row line =
      Inl (print_error ''Invalid combination of columns provided!'' ''Line'' line)"
    if "fastq_1 = []"
    using assms s that by (simp add: fastq_row_def classify_def)
  have run: "check_samplesheet file_in fin ''FASTQ'' =
      \<lparr>fatal = Some (print_error ''Invalid combination of columns provided!'' ''Line'' line),
       out_file = None\<rparr>"
    if "fastq_1 = []" and "take (length HEADER_FASTQ) (read_header fin) = HEADER_FASTQ \<and>
      tl fin = pre @ line # post \<and> fastq_entries [] pre = Inr d"
    for file_in fin pre post d
    using fastq_run_row_fails [of fin pre line post d _ file_in] other [OF that(1)] that(2)
    by blast
  have S: "fastq_1 \<noteq> [] \<and> fastq_2 = [] \<longrightarrow>
            fastq_row line = Inr (sample, [''1'', fastq_1, fastq_2]) \<and>
            (\<forall>d. [''1'', fastq_1, fastq_2] \<notin> set (recorded d sample) \<longrightarrow>
               (\<exists>d'. fastq_entries d [line] = Inr d' \<and>
                  map_of d' =
                    (map_of d)(sample \<mapsto> recorded d sample @ [[''1'', fastq_1, fastq_2]]))) \<and>
            (\<forall>d. [''1'', fastq_1, fastq_2] \<in> set (recorded d sample) \<longrightarrow>
               fastq_entries d [line] = Inl (duplicate_rows line))"
    using single fastq_entries_one_fresh [of line sample "[''1'', fastq_1, fastq_2]"]
      fastq_entries_one_repeat [of line sample "[''1'', fastq_1, fastq_2]"]
    by blast
  have P: "fastq_1 \<noteq> [] \<and> fastq_2 \<noteq> [] \<longrightarrow>
            fastq_row line = Inr (sample, [''0'', fastq_1, fastq_2]) \<and>
            (\<forall>d. [''0'', fastq_1, fastq_2] \<notin> set (recorded d sample) \<longrightarrow>
               (\<exists>d'. fastq_entries d [line] = Inr d' \<and>
                  map_of d' =
                    (map_of d)(sample \<mapsto> recorded d sample @ [[''0'', fastq_1, fastq_2]]))) \<and>
            (\<forall>d. [''0'', fastq_1, fastq_2] \<in> set (recorded d sample) \<longrightarrow>
               fastq_entries d [line] = Inl (duplicate_rows line))"
    using paired fastq_entries_one_fresh [of line sample "[''0'', fastq_1, fastq_2]"]
      fastq_entries_one_repeat [of line sample "[''0'', fastq_1, fastq_2]"]
    by blast
  have O: "fastq_1 = [] \<longrightarrow>
            fastq_row line =
              Inl (print_error ''Invalid combination of columns provided!'' ''Line'' line) \<and>
            (\<forall>file_in fin pre post d.
               take (length HEADER_FASTQ) (read_header fin) = HEADER_FASTQ \<and>
               tl fin = pre @ line # post \<and> fastq_entries [] pre = Inr d \<longrightarrow>
               check_samplesheet file_in fin ''FASTQ'' =
                 \<lparr>fatal = Some (print_error ''Invalid combination of columns provided!''
                                   ''Line'' line),
                  out_file = None\<rparr>)"
    using other run by blast
  show ?thesis by (intro conjI s S P O)
qed

theorem pairing_classification_witness:
  "fastq_row ''S1,a.fastq.gz,'' = Inr (''S1'', [''1'', ''a.fastq.gz'', []]) \<and>
   (\<exists>d'. fastq_entries [(''S1'', [[''1'', ''z.fq.gz'', []]])] [''S1,a.fastq.gz,''] = Inr d' \<and>
      map_of d' ''S1'' = Some [[''1'', ''z.fq.gz'', []], [''1'', ''a.fastq.gz'', []]]) \<and>
   fastq_row ''S1,a.fastq.gz,b.fastq.gz'' = Inr (''S1'', [''0'', ''a.fastq.gz'', ''b.fastq.gz'']) \<and>
   (\<exists>d'. fastq_entries [] [''S1,a.fastq.gz,b.fastq.gz''] = Inr d' \<and>
      map_of d' ''S1'' = Some [[''0'', ''a.fastq.gz'', ''b.fastq.gz'']]) \<and>
   fastq_entries [(''S1'', [[''0'', ''a.fastq.gz'', ''b.fastq.gz'']])] [''S1,a.fastq.gz,b.fastq.gz''] =
     Inl (duplicate_rows ''S1,a.fastq.gz,b.fastq.gz'') \<and>
   check_samplesheet ''samplesheet.csv''
     [''sample,fastq_1,fastq_2'' @ [NL], ''S0,x.fq.gz,'' @ [NL], ''S1,,b.fastq.gz'' @ [NL]] ''FASTQ'' =
     \<lparr>fatal = Some (print_error ''Invalid combination of columns provided!'' ''Line''
                       (''S1,,b.fastq.gz'' @ [NL])),
      out_file = None\<rparr>"
proof -
  have a: "fastq_checks ''S1,a.fastq.gz,'' = Inr (''S1'', ''a.fastq.gz'', [])" by code_simp
  have b: "fastq_checks ''S1,a.fastq.gz,b.fastq.gz'' = Inr (''S1'', ''a.fastq.gz'', ''b.fastq.gz'')"
    by code_simp
  have c: "fastq_checks (''S1,,b.fastq.gz'' @ [NL]) = Inr (''S1'', [], ''b.fastq.gz'')"
    by code_simp
  note A = pairing_classification [OF a]
  note B = pairing_classification [OF b]
  note C = pairing_classification [OF c]
  have 1: "fastq_row ''S1,a.fastq.gz,'' = Inr (''S1'', [''1'', ''a.fastq.gz'', []])"
    using A by simp
  let ?d = "[(''S1'', [[''1'', ''z.fq.gz'', []]])]"
  have r: "recorded ?d ''S1'' = [[''1'', ''z.fq.gz'', []]]" by (simp add: recorded_def)
  have "[''1'', ''a.fastq.gz'', []] \<notin> set (recorded ?d ''S1'')" by (simp add: r)
  with A obtain d' where "fastq_entries ?d [''S1,a.fastq.gz,''] = Inr d'"
    "map_of d' = (map_of ?d)(''S1'' \<mapsto> recorded ?d ''S1'' @ [[''1'', ''a.fastq.gz'', []]])"
    by auto
  then have 2: "\<exists>d'. fastq_entries ?d [''S1,a.fastq.gz,''] = Inr d' \<and>
      map_of d' ''S1'' = Some [[''1'', ''z.fq.gz'', []], [''1'', ''a.fastq.gz'', []]]"
    by (simp add: r)
  have 3: "fastq_row ''S1,a.fastq.gz,b.fastq.gz'' =
      Inr (''S1'', [''0'', ''a.fastq.gz'', ''b.fastq.gz''])"
    using B by simp
  have "[''0'', ''a.fastq.gz'', ''b.fastq.gz''] \<notin> set (recorded [] ''S1'')"
    by (simp add: recorded_def)
  with B obtain d'' where "fastq_entries [] [''S1,a.fastq.gz,b.fastq.gz''] = Inr d''"
    "map_of d'' = (map_of [])(''S1'' \<mapsto> recorded [] ''S1'' @ [[''0'', ''a.fastq.gz'', ''b.fastq.gz'']])"
    by auto
  then have 4: "\<exists>d'. fastq_entries [] [''S1,a.fastq.gz,b.fastq.gz''] = Inr d' \<and>
      map_of d' ''S1'' = Some [[''0'', ''a.fastq.gz'', ''b.fastq.gz'']]"
    by (simp add: recorded_def)
  let ?e = "[(''S1'', [[''0'', ''a.fastq.gz'', ''b.fastq.gz'']])]"
  have "[''0'', ''a.fastq.gz'', ''b.fastq.gz''] \<in> set (recorded ?e ''S1'')"
    by (simp add: recorded_def)
  with B have 5: "fastq_entries ?e [''S1,a.fastq.gz,b.fastq.gz''] =
      Inl (duplicate_rows ''S1,a.fastq.gz,b.fastq.gz'')"
    by auto
  let ?fin = "[''sample,fastq_1,fastq_2'' @ [NL], ''S0,x.fq.gz,'' @ [NL], ''S1,,b.fastq.gz'' @ [NL]]"
  have h: "take (length HEADER_FASTQ) (read_header ?fin) = HEADER_FASTQ" by code_simp
  have t: "tl ?fin = [''S0,x.fq.gz,'' @ [NL]] @ (''S1,,b.fastq.gz'' @ [NL]) # []" by simp
  have p: "fastq_entries [] [''S0,x.fq.gz,'' @ [NL]] = Inr [(''S0'', [[''1'', ''x.fq.gz'', []]])]"
    by code_simp
  have 6: "check_samplesheet ''samplesheet.csv'' ?fin ''FASTQ'' =
     \<lparr>fatal = Some (print_error ''Invalid combination of columns provided!'' ''Line''
                       (''S1,,b.fastq.gz'' @ [NL])),
      out_file = None\<rparr>"
    using C h t p by blast
  show ?thesis using 1 2 3 4 5 6 by blast
qed

section \<open>Duplicate rows\<close>




section \<open>The datatype message\<close>

text \<open>
  Claim C5. Two runs of sample \<open>A\<close>, one paired-end and one single-end, end the run
  with the datatype message. The sample is handed to \<open>print_error\<close> as the context
  with an empty \<open>context_str\<close>, so the printed message does not name it.
\<close>

theorem datatype_error_omits_sample:
  "check_samplesheet ''samplesheet.csv''
     [''sample,fastq_1,fastq_2'' @ [NL], ''A,a_1.fastq.gz,a_2.fastq.gz'' @ [NL],
      ''A,b_1.fastq.gz,'' @ [NL]] ''FASTQ'' =
   \<lparr>fatal = Some ''ERROR: Please check samplesheet -> Multiple runs of a sample must be of the same datatype!'',
    out_file = Some (''sample,single_end,fastq_1,fastq_2'' @ [NL])\<rparr>"
  by code_simp

section \<open>File name checks\<close>

text \<open>
  Claim C6. Every non-empty file field of a data row is checked, first for a space, then
  for its ending. The checks of a row run in the order of the specification and the
  first violation ends the run, so a row that has passed the column-count,
  populated-count and sample checks ends with the message of the first file check that
  fails, \<open>fastq_1\<close> before \<open>fastq_2\<close>: the contains-spaces message for a name with a
  space, the extension message for a name without a space that does not end in
  \<open>.fastq.gz\<close> or \<open>.fq.gz\<close> (FASTQ) or in \<open>.bam\<close> (BAM). Whatever else a row
  holds, a row with a space or a wrong ending in a non-empty file field is fatal, and a
  sheet that holds such a row anywhere below its first line stops with a fatal message
  before the output file is opened: the row never appears in the output. A run with the
  required header that reaches the row, the rows before it recorded, stops with the
  message of the row.
\<close>

theorem file_field_checks:
  "(length HEADER_FASTQ \<le> length (row_fields line) \<and> MIN_COLS \<le> populated (row_fields line) \<and>
    row_fields line ! 0 \<noteq> [] \<and>
    row_fields line ! 1 \<noteq> [] \<and> contains_space (row_fields line ! 1) \<longrightarrow>
      fastq_row line = Inl (print_error ''FastQ file contains spaces!'' ''Line'' line)) \<and>
   (length HEADER_FASTQ \<le> length (row_fields line) \<and> MIN_COLS \<le> populated (row_fields line) \<and>
    row_fields line ! 0 \<noteq> [] \<and>
    row_fields line ! 1 \<noteq> [] \<and> \<not> contains_space (row_fields line ! 1) \<and>
    \<not> endswith (row_fields line ! 1) ''.fastq.gz'' \<and> \<not> endswith (row_fields line ! 1) ''.fq.gz'' \<longrightarrow>
      fastq_row line = Inl (print_error fastq_extension_msg ''Line'' line)) \<and>
   (length HEADER_FASTQ \<le> length (row_fields line) \<and> MIN_COLS \<le> populated (row_fields line) \<and>
    row_fields line ! 0 \<noteq> [] \<and>
    (row_fields line ! 1 = [] \<or> \<not> contains_space (row_fields line ! 1) \<and>
       (endswith (row_fields line ! 1) ''.fastq.gz'' \<or> endswith (row_fields line ! 1) ''.fq.gz'')) \<and>
    row_fields line ! 2 \<noteq> [] \<and> contains_space (row_fields line ! 2) \<longrightarrow>
      fastq_row line = Inl (print_error ''FastQ file contains spaces!'' ''Line'' line)) \<and>
   (length HEADER_FASTQ \<le> length (row_fields line) \<and> MIN_COLS \<le> populated (row_fields line) \<and>
    row_fields line ! 0 \<noteq> [] \<and>
    (row_fields line ! 1 = [] \<or> \<not> contains_space (row_fields line ! 1) \<and>
       (endswith (row_fields line ! 1) ''.fastq.gz'' \<or> endswith (row_fields line ! 1) ''.fq.gz'')) \<and>
    row_fields line ! 2 \<noteq> [] \<and> \<not> contains_space (row_fields line ! 2) \<and>
    \<not> endswith (row_fields line ! 2) ''.fastq.gz'' \<and> \<not> endswith (row_fields line ! 2) ''.fq.gz'' \<longrightarrow>
      fastq_row line = Inl (print_error fastq_extension_msg ''Line'' line)) \<and>
   (MIN_COLS \<le> populated (row_fields line) \<and> row_fields line ! 0 \<noteq> [] \<and>
    row_fields line ! 1 \<noteq> [] \<and> contains_space (row_fields line ! 1) \<longrightarrow>
      bam_row line = Inl (print_error ''BAM file contains spaces!'' ''Line'' line)) \<and>
   (MIN_COLS \<le> populated (row_fields line) \<and> row_fields line ! 0 \<noteq> [] \<and>
    row_fields line ! 1 \<noteq> [] \<and> \<not> contains_space (row_fields line ! 1) \<and>
    \<not> endswith (row_fields line ! 1) ''.bam'' \<longrightarrow>
      bam_row line = Inl (print_error bam_extension_msg ''Line'' line)) \<and>
   ((1 < length (row_fields line) \<and> row_fields line ! 1 \<noteq> [] \<and>
       (contains_space (row_fields line ! 1) \<or>
        \<not> endswith (row_fields line ! 1) ''.fastq.gz'' \<and>
        \<not> endswith (row_fields line ! 1) ''.fq.gz'')) \<or>
    (2 < length (row_fields line) \<and> row_fields line ! 2 \<noteq> [] \<and>
       (contains_space (row_fields line ! 2) \<or>
        \<not> endswith (row_fields line ! 2) ''.fastq.gz'' \<and>
        \<not> endswith (row_fields line ! 2) ''.fq.gz'')) \<longrightarrow>
      (\<exists>e. fastq_row line = Inl e) \<and>
      (\<forall>file_in fin. line \<in> set (tl fin) \<longrightarrow>
         (\<exists>e. check_samplesheet file_in fin ''FASTQ'' = \<lparr>fatal = Some e, out_file = None\<rparr>))) \<and>
   (1 < length (row_fields line) \<and> row_fields line ! 1 \<noteq> [] \<and>
    (contains_space (row_fields line ! 1) \<or> \<not> endswith (row_fields line ! 1) ''.bam'') \<longrightarrow>
      (\<exists>e. bam_row line = Inl e) \<and>
      (\<forall>file_in fin. line \<in> set (tl fin) \<longrightarrow>
         (\<exists>e. check_samplesheet file_in fin ''BAM'' = \<lparr>fatal = Some e, out_file = None\<rparr>))) \<and>
   (\<forall>file_in fin pre post d e.
      take (length HEADER_FASTQ) (read_header fin) = HEADER_FASTQ \<and>
      tl fin = pre @ line # post \<and> fastq_entries [] pre = Inr d \<and> fastq_row line = Inl e \<longrightarrow>
      check_samplesheet file_in fin ''FASTQ'' = \<lparr>fatal = Some e, out_file = None\<rparr>) \<and>
   (\<forall>file_in fin pre post d e.
      take (length HEADER_BAM) (read_header fin) = HEADER_BAM \<and>
      tl fin = pre @ line # post \<and> bam_entries [] pre = Inr d \<and> bam_row line = Inl e \<longrightarrow>
      check_samplesheet file_in fin ''BAM'' = \<lparr>fatal = Some e, out_file = None\<rparr>)"
proof -
  let ?fs = "row_fields line"
  let ?ok = "\<lambda>f. f = [] \<or> \<not> contains_space f \<and> (endswith f ''.fastq.gz'' \<or> endswith f ''.fq.gz'')"
  have passes: "check_fastq f line = None" if "?ok f" for f
    using that by (auto simp: check_fastq_def)
  have F1: "length HEADER_FASTQ \<le> length ?fs \<and> MIN_COLS \<le> populated ?fs \<and> ?fs ! 0 \<noteq> [] \<and>
      ?fs ! 1 \<noteq> [] \<and> contains_space (?fs ! 1) \<longrightarrow>
      fastq_row line = Inl (print_error ''FastQ file contains spaces!'' ''Line'' line)"
  proof (intro impI, elim conjE)
    assume a: "length HEADER_FASTQ \<le> length ?fs" "MIN_COLS \<le> populated ?fs" "?fs ! 0 \<noteq> []"
      and b: "?fs ! 1 \<noteq> []" "contains_space (?fs ! 1)"
    have "check_fastq (?fs ! 1) line =
        Some (print_error ''FastQ file contains spaces!'' ''Line'' line)"
      using b by (simp add: check_fastq_def)
    then show "fastq_row line = Inl (print_error ''FastQ file contains spaces!'' ''Line'' line)"
      by (rule fastq_row_checks_first [OF a])
  qed
  have F2: "length HEADER_FASTQ \<le> length ?fs \<and> MIN_COLS \<le> populated ?fs \<and> ?fs ! 0 \<noteq> [] \<and>
      ?fs ! 1 \<noteq> [] \<and> \<not> contains_space (?fs ! 1) \<and>
      \<not> endswith (?fs ! 1) ''.fastq.gz'' \<and> \<not> endswith (?fs ! 1) ''.fq.gz'' \<longrightarrow>
      fastq_row line = Inl (print_error fastq_extension_msg ''Line'' line)"
  proof (intro impI, elim conjE)
    assume a: "length HEADER_FASTQ \<le> length ?fs" "MIN_COLS \<le> populated ?fs" "?fs ! 0 \<noteq> []"
      and b: "?fs ! 1 \<noteq> []" "\<not> contains_space (?fs ! 1)"
        "\<not> endswith (?fs ! 1) ''.fastq.gz''" "\<not> endswith (?fs ! 1) ''.fq.gz''"
    have "check_fastq (?fs ! 1) line = Some (print_error fastq_extension_msg ''Line'' line)"
      using b by (simp add: check_fastq_def)
    then show "fastq_row line = Inl (print_error fastq_extension_msg ''Line'' line)"
      by (rule fastq_row_checks_first [OF a])
  qed
  have F3: "length HEADER_FASTQ \<le> length ?fs \<and> MIN_COLS \<le> populated ?fs \<and> ?fs ! 0 \<noteq> [] \<and>
      ?ok (?fs ! 1) \<and> ?fs ! 2 \<noteq> [] \<and> contains_space (?fs ! 2) \<longrightarrow>
      fastq_row line = Inl (print_error ''FastQ file contains spaces!'' ''Line'' line)"
  proof (intro impI, elim conjE)
    assume a: "length HEADER_FASTQ \<le> length ?fs" "MIN_COLS \<le> populated ?fs" "?fs ! 0 \<noteq> []"
      and o: "?ok (?fs ! 1)"
      and b: "?fs ! 2 \<noteq> []" "contains_space (?fs ! 2)"
    have "check_fastq (?fs ! 2) line =
        Some (print_error ''FastQ file contains spaces!'' ''Line'' line)"
      using b by (simp add: check_fastq_def)
    then show "fastq_row line = Inl (print_error ''FastQ file contains spaces!'' ''Line'' line)"
      by (rule fastq_row_checks_second [OF a passes [OF o]])
  qed
  have F4: "length HEADER_FASTQ \<le> length ?fs \<and> MIN_COLS \<le> populated ?fs \<and> ?fs ! 0 \<noteq> [] \<and>
      ?ok (?fs ! 1) \<and> ?fs ! 2 \<noteq> [] \<and> \<not> contains_space (?fs ! 2) \<and>
      \<not> endswith (?fs ! 2) ''.fastq.gz'' \<and> \<not> endswith (?fs ! 2) ''.fq.gz'' \<longrightarrow>
      fastq_row line = Inl (print_error fastq_extension_msg ''Line'' line)"
  proof (intro impI, elim conjE)
    assume a: "length HEADER_FASTQ \<le> length ?fs" "MIN_COLS \<le> populated ?fs" "?fs ! 0 \<noteq> []"
      and o: "?ok (?fs ! 1)"
      and b: "?fs ! 2 \<noteq> []" "\<not> contains_space (?fs ! 2)"
        "\<not> endswith (?fs ! 2) ''.fastq.gz''" "\<not> endswith (?fs ! 2) ''.fq.gz''"
    have "check_fastq (?fs ! 2) line = Some (print_error fastq_extension_msg ''Line'' line)"
      using b by (simp add: check_fastq_def)
    then show "fastq_row line = Inl (print_error fastq_extension_msg ''Line'' line)"
      by (rule fastq_row_checks_second [OF a passes [OF o]])
  qed
  have len: "2 \<le> length ?fs" if "MIN_COLS \<le> populated ?fs"
    using that populated_le_length [of ?fs] by (simp add: MIN_COLS_def)
  have B1: "MIN_COLS \<le> populated ?fs \<and> ?fs ! 0 \<noteq> [] \<and>
      ?fs ! 1 \<noteq> [] \<and> contains_space (?fs ! 1) \<longrightarrow>
      bam_row line = Inl (print_error ''BAM file contains spaces!'' ''Line'' line)"
  proof (intro impI, elim conjE)
    assume a: "MIN_COLS \<le> populated ?fs" "?fs ! 0 \<noteq> []"
      and b: "?fs ! 1 \<noteq> []" "contains_space (?fs ! 1)"
    show "bam_row line = Inl (print_error ''BAM file contains spaces!'' ''Line'' line)"
      using len [OF a(1)] a b
      by (simp add: bam_row_def Let_def HEADER_BAM_def replace_Nil_iff)
  qed
  have B2: "MIN_COLS \<le> populated ?fs \<and> ?fs ! 0 \<noteq> [] \<and>
      ?fs ! 1 \<noteq> [] \<and> \<not> contains_space (?fs ! 1) \<and> \<not> endswith (?fs ! 1) ''.bam'' \<longrightarrow>
      bam_row line = Inl (print_error bam_extension_msg ''Line'' line)"
  proof (intro impI, elim conjE)
    assume a: "MIN_COLS \<le> populated ?fs" "?fs ! 0 \<noteq> []"
      and b: "?fs ! 1 \<noteq> []" "\<not> contains_space (?fs ! 1)" "\<not> endswith (?fs ! 1) ''.bam''"
    show "bam_row line = Inl (print_error bam_extension_msg ''Line'' line)"
      using len [OF a(1)] a b
      by (simp add: bam_row_def Let_def HEADER_BAM_def replace_Nil_iff)
  qed
  have F5: "(1 < length ?fs \<and> ?fs ! 1 \<noteq> [] \<and>
       (contains_space (?fs ! 1) \<or>
        \<not> endswith (?fs ! 1) ''.fastq.gz'' \<and> \<not> endswith (?fs ! 1) ''.fq.gz'')) \<or>
    (2 < length ?fs \<and> ?fs ! 2 \<noteq> [] \<and>
       (contains_space (?fs ! 2) \<or>
        \<not> endswith (?fs ! 2) ''.fastq.gz'' \<and> \<not> endswith (?fs ! 2) ''.fq.gz'')) \<longrightarrow>
      (\<exists>e. fastq_row line = Inl e) \<and>
      (\<forall>file_in fin. line \<in> set (tl fin) \<longrightarrow>
         (\<exists>e. check_samplesheet file_in fin ''FASTQ'' = \<lparr>fatal = Some e, out_file = None\<rparr>))"
  proof
    assume "(1 < length ?fs \<and> ?fs ! 1 \<noteq> [] \<and>
       (contains_space (?fs ! 1) \<or>
        \<not> endswith (?fs ! 1) ''.fastq.gz'' \<and> \<not> endswith (?fs ! 1) ''.fq.gz'')) \<or>
      (2 < length ?fs \<and> ?fs ! 2 \<noteq> [] \<and>
       (contains_space (?fs ! 2) \<or>
        \<not> endswith (?fs ! 2) ''.fastq.gz'' \<and> \<not> endswith (?fs ! 2) ''.fq.gz''))"
    from fastq_row_file_fails [OF this] obtain e where e: "fastq_row line = Inl e" ..
    show "(\<exists>e. fastq_row line = Inl e) \<and>
      (\<forall>file_in fin. line \<in> set (tl fin) \<longrightarrow>
         (\<exists>e. check_samplesheet file_in fin ''FASTQ'' = \<lparr>fatal = Some e, out_file = None\<rparr>))"
      using e fastq_failing_row_aborts [OF _ e] by blast
  qed
  have B3: "1 < length ?fs \<and> ?fs ! 1 \<noteq> [] \<and>
      (contains_space (?fs ! 1) \<or> \<not> endswith (?fs ! 1) ''.bam'') \<longrightarrow>
      (\<exists>e. bam_row line = Inl e) \<and>
      (\<forall>file_in fin. line \<in> set (tl fin) \<longrightarrow>
         (\<exists>e. check_samplesheet file_in fin ''BAM'' = \<lparr>fatal = Some e, out_file = None\<rparr>))"
  proof
    assume "1 < length ?fs \<and> ?fs ! 1 \<noteq> [] \<and>
      (contains_space (?fs ! 1) \<or> \<not> endswith (?fs ! 1) ''.bam'')"
    then have "1 < length ?fs" "?fs ! 1 \<noteq> []"
      "contains_space (?fs ! 1) \<or> \<not> endswith (?fs ! 1) ''.bam''" by simp_all
    from bam_row_file_fails [OF this] obtain e where e: "bam_row line = Inl e" ..
    show "(\<exists>e. bam_row line = Inl e) \<and>
      (\<forall>file_in fin. line \<in> set (tl fin) \<longrightarrow>
         (\<exists>e. check_samplesheet file_in fin ''BAM'' = \<lparr>fatal = Some e, out_file = None\<rparr>))"
      using e bam_failing_row_aborts [OF _ e] by blast
  qed
  have R1: "\<forall>file_in fin pre post d e.
      take (length HEADER_FASTQ) (read_header fin) = HEADER_FASTQ \<and>
      tl fin = pre @ line # post \<and> fastq_entries [] pre = Inr d \<and> fastq_row line = Inl e \<longrightarrow>
      check_samplesheet file_in fin ''FASTQ'' = \<lparr>fatal = Some e, out_file = None\<rparr>"
    using fastq_run_row_fails by blast
  have R2: "\<forall>file_in fin pre post d e.
      take (length HEADER_BAM) (read_header fin) = HEADER_BAM \<and>
      tl fin = pre @ line # post \<and> bam_entries [] pre = Inr d \<and> bam_row line = Inl e \<longrightarrow>
      check_samplesheet file_in fin ''BAM'' = \<lparr>fatal = Some e, out_file = None\<rparr>"
    using bam_run_row_fails by blast
  show ?thesis
    by (intro conjI F1 F2 F3 F4 B1 B2 F5 B3 R1 R2)
qed

theorem file_field_checks_witness:
  "fastq_row (''S1,a b.fq.gz,c.fq.gz'' @ [NL]) =
     Inl (print_error ''FastQ file contains spaces!'' ''Line'' (''S1,a b.fq.gz,c.fq.gz'' @ [NL])) \<and>
   fastq_row (''S1,a.txt,'' @ [NL]) =
     Inl (print_error fastq_extension_msg ''Line'' (''S1,a.txt,'' @ [NL])) \<and>
   fastq_row (''S1,a.fq.gz,b c.fq.gz'' @ [NL]) =
     Inl (print_error ''FastQ file contains spaces!'' ''Line'' (''S1,a.fq.gz,b c.fq.gz'' @ [NL])) \<and>
   fastq_row (''S1,a.fq.gz,c.txt'' @ [NL]) =
     Inl (print_error fastq_extension_msg ''Line'' (''S1,a.fq.gz,c.txt'' @ [NL])) \<and>
   bam_row (''S1,a b.bam'' @ [NL]) =
     Inl (print_error ''BAM file contains spaces!'' ''Line'' (''S1,a b.bam'' @ [NL])) \<and>
   bam_row (''S1,a.sam'' @ [NL]) =
     Inl (print_error bam_extension_msg ''Line'' (''S1,a.sam'' @ [NL])) \<and>
   (\<exists>e. check_samplesheet ''samplesheet.csv''
     [''sample,fastq_1,fastq_2'' @ [NL], ''S1,a.txt,b c.fastq.gz'' @ [NL], ''S0,x.fq.gz,'' @ [NL]]
     ''FASTQ'' = \<lparr>fatal = Some e, out_file = None\<rparr>) \<and>
   (\<exists>e. check_samplesheet ''samplesheet.csv''
     [''sample,bam'' @ [NL], ''S0,x.bam'' @ [NL], ''S1,a b.txt'' @ [NL]] ''BAM'' =
     \<lparr>fatal = Some e, out_file = None\<rparr>) \<and>
   check_samplesheet ''samplesheet.csv''
     [''sample,fastq_1,fastq_2'' @ [NL], ''S0,x.fq.gz,'' @ [NL], ''S1,a b.fq.gz,c.fq.gz'' @ [NL]]
     ''FASTQ'' =
     \<lparr>fatal = Some (print_error ''FastQ file contains spaces!'' ''Line''
                      (''S1,a b.fq.gz,c.fq.gz'' @ [NL])),
      out_file = None\<rparr> \<and>
   check_samplesheet ''samplesheet.csv''
     [''sample,bam'' @ [NL], ''S0,x.bam'' @ [NL], ''S1,a b.bam'' @ [NL]] ''BAM'' =
     \<lparr>fatal = Some (print_error ''BAM file contains spaces!'' ''Line'' (''S1,a b.bam'' @ [NL])),
      out_file = None\<rparr>"
proof -
  let ?l1 = "''S1,a b.fq.gz,c.fq.gz'' @ [NL]"
  let ?l2 = "''S1,a.txt,'' @ [NL]"
  let ?l3 = "''S1,a.fq.gz,b c.fq.gz'' @ [NL]"
  let ?l4 = "''S1,a.fq.gz,c.txt'' @ [NL]"
  let ?l5 = "''S1,a b.bam'' @ [NL]"
  let ?l6 = "''S1,a.sam'' @ [NL]"
  let ?l7 = "''S1,a.txt,b c.fastq.gz'' @ [NL]"
  let ?l8 = "''S1,a b.txt'' @ [NL]"
  have c1: "length HEADER_FASTQ \<le> length (row_fields ?l1) \<and> MIN_COLS \<le> populated (row_fields ?l1) \<and>
    row_fields ?l1 ! 0 \<noteq> [] \<and> row_fields ?l1 ! 1 \<noteq> [] \<and> contains_space (row_fields ?l1 ! 1)"
    by code_simp
  have 1: "fastq_row ?l1 = Inl (print_error ''FastQ file contains spaces!'' ''Line'' ?l1)"
    using file_field_checks [of ?l1, THEN conjunct1] c1 by blast
  have c2: "length HEADER_FASTQ \<le> length (row_fields ?l2) \<and> MIN_COLS \<le> populated (row_fields ?l2) \<and>
    row_fields ?l2 ! 0 \<noteq> [] \<and> row_fields ?l2 ! 1 \<noteq> [] \<and> \<not> contains_space (row_fields ?l2 ! 1) \<and>
    \<not> endswith (row_fields ?l2 ! 1) ''.fastq.gz'' \<and> \<not> endswith (row_fields ?l2 ! 1) ''.fq.gz''"
    by code_simp
  have 2: "fastq_row ?l2 = Inl (print_error fastq_extension_msg ''Line'' ?l2)"
    using file_field_checks [of ?l2, THEN conjunct2, THEN conjunct1] c2 by blast
  have c3: "length HEADER_FASTQ \<le> length (row_fields ?l3) \<and> MIN_COLS \<le> populated (row_fields ?l3) \<and>
    row_fields ?l3 ! 0 \<noteq> [] \<and>
    (row_fields ?l3 ! 1 = [] \<or> \<not> contains_space (row_fields ?l3 ! 1) \<and>
       (endswith (row_fields ?l3 ! 1) ''.fastq.gz'' \<or> endswith (row_fields ?l3 ! 1) ''.fq.gz'')) \<and>
    row_fields ?l3 ! 2 \<noteq> [] \<and> contains_space (row_fields ?l3 ! 2)"
    by code_simp
  have 3: "fastq_row ?l3 = Inl (print_error ''FastQ file contains spaces!'' ''Line'' ?l3)"
    using file_field_checks [of ?l3, THEN conjunct2, THEN conjunct2, THEN conjunct1] c3 by blast
  have c4: "length HEADER_FASTQ \<le> length (row_fields ?l4) \<and> MIN_COLS \<le> populated (row_fields ?l4) \<and>
    row_fields ?l4 ! 0 \<noteq> [] \<and>
    (row_fields ?l4 ! 1 = [] \<or> \<not> contains_space (row_fields ?l4 ! 1) \<and>
       (endswith (row_fields ?l4 ! 1) ''.fastq.gz'' \<or> endswith (row_fields ?l4 ! 1) ''.fq.gz'')) \<and>
    row_fields ?l4 ! 2 \<noteq> [] \<and> \<not> contains_space (row_fields ?l4 ! 2) \<and>
    \<not> endswith (row_fields ?l4 ! 2) ''.fastq.gz'' \<and> \<not> endswith (row_fields ?l4 ! 2) ''.fq.gz''"
    by code_simp
  have 4: "fastq_row ?l4 = Inl (print_error fastq_extension_msg ''Line'' ?l4)"
    using file_field_checks [of ?l4, THEN conjunct2, THEN conjunct2, THEN conjunct2,
        THEN conjunct1] c4 by blast
  have c5: "MIN_COLS \<le> populated (row_fields ?l5) \<and> row_fields ?l5 ! 0 \<noteq> [] \<and>
    row_fields ?l5 ! 1 \<noteq> [] \<and> contains_space (row_fields ?l5 ! 1)"
    by code_simp
  have 5: "bam_row ?l5 = Inl (print_error ''BAM file contains spaces!'' ''Line'' ?l5)"
    using file_field_checks [of ?l5, THEN conjunct2, THEN conjunct2, THEN conjunct2,
        THEN conjunct2, THEN conjunct1] c5 by blast
  have c6: "MIN_COLS \<le> populated (row_fields ?l6) \<and> row_fields ?l6 ! 0 \<noteq> [] \<and>
    row_fields ?l6 ! 1 \<noteq> [] \<and> \<not> contains_space (row_fields ?l6 ! 1) \<and>
    \<not> endswith (row_fields ?l6 ! 1) ''.bam''"
    by code_simp
  have 6: "bam_row ?l6 = Inl (print_error bam_extension_msg ''Line'' ?l6)"
    using file_field_checks [of ?l6, THEN conjunct2, THEN conjunct2, THEN conjunct2,
        THEN conjunct2, THEN conjunct2, THEN conjunct1] c6 by blast
  let ?fin7 = "[''sample,fastq_1,fastq_2'' @ [NL], ?l7, ''S0,x.fq.gz,'' @ [NL]]"
  have c7: "2 < length (row_fields ?l7) \<and> row_fields ?l7 ! 2 \<noteq> [] \<and>
    contains_space (row_fields ?l7 ! 2)" by code_simp
  have m7: "?l7 \<in> set (tl ?fin7)" by simp
  have 7: "\<exists>e. check_samplesheet ''samplesheet.csv'' ?fin7 ''FASTQ'' =
      \<lparr>fatal = Some e, out_file = None\<rparr>"
    using file_field_checks [of ?l7, THEN conjunct2, THEN conjunct2, THEN conjunct2,
        THEN conjunct2, THEN conjunct2, THEN conjunct2, THEN conjunct1] c7 m7 by blast
  let ?fin8 = "[''sample,bam'' @ [NL], ''S0,x.bam'' @ [NL], ?l8]"
  have c8: "1 < length (row_fields ?l8) \<and> row_fields ?l8 ! 1 \<noteq> [] \<and>
    contains_space (row_fields ?l8 ! 1)" by code_simp
  have m8: "?l8 \<in> set (tl ?fin8)" by simp
  have 8: "\<exists>e. check_samplesheet ''samplesheet.csv'' ?fin8 ''BAM'' =
      \<lparr>fatal = Some e, out_file = None\<rparr>"
    using file_field_checks [of ?l8, THEN conjunct2, THEN conjunct2, THEN conjunct2,
        THEN conjunct2, THEN conjunct2, THEN conjunct2, THEN conjunct2, THEN conjunct1] c8 m8
    by blast
  let ?fin9 = "[''sample,fastq_1,fastq_2'' @ [NL], ''S0,x.fq.gz,'' @ [NL], ?l1]"
  have h9: "take (length HEADER_FASTQ) (read_header ?fin9) = HEADER_FASTQ" by code_simp
  have t9: "tl ?fin9 = [''S0,x.fq.gz,'' @ [NL]] @ ?l1 # []" by simp
  have e9: "fastq_entries [] [''S0,x.fq.gz,'' @ [NL]] = Inr [(''S0'', [[''1'', ''x.fq.gz'', []]])]"
    by code_simp
  have 9: "check_samplesheet ''samplesheet.csv'' ?fin9 ''FASTQ'' =
      \<lparr>fatal = Some (print_error ''FastQ file contains spaces!'' ''Line'' ?l1),
       out_file = None\<rparr>"
    using file_field_checks [of ?l1, THEN conjunct2, THEN conjunct2, THEN conjunct2,
        THEN conjunct2, THEN conjunct2, THEN conjunct2, THEN conjunct2, THEN conjunct2,
        THEN conjunct1] h9 t9 e9 1 by blast
  let ?fin10 = "[''sample,bam'' @ [NL], ''S0,x.bam'' @ [NL], ?l5]"
  have h10: "take (length HEADER_BAM) (read_header ?fin10) = HEADER_BAM" by code_simp
  have t10: "tl ?fin10 = [''S0,x.bam'' @ [NL]] @ ?l5 # []" by simp
  have e10: "bam_entries [] [''S0,x.bam'' @ [NL]] = Inr [(''S0'', [[''1'', ''x.bam'']])]"
    by code_simp
  have 10: "check_samplesheet ''samplesheet.csv'' ?fin10 ''BAM'' =
      \<lparr>fatal = Some (print_error ''BAM file contains spaces!'' ''Line'' ?l5),
       out_file = None\<rparr>"
    using file_field_checks [of ?l5, THEN conjunct2, THEN conjunct2, THEN conjunct2,
        THEN conjunct2, THEN conjunct2, THEN conjunct2, THEN conjunct2, THEN conjunct2,
        THEN conjunct2] h10 t10 e10 5 by blast
  show ?thesis by (intro conjI 1 2 3 4 5 6 7 8 9 10)
qed

section \<open>The format argument\<close>

text \<open>
  Claim C7. For every format argument other than the exact strings \<open>FASTQ\<close> and \<open>BAM\<close>
  the run ends with the fatal invalid-format message and the output file is never
  opened, whatever the input file holds.
\<close>

theorem invalid_format_fatal:
  assumes "input_format \<noteq> ''FASTQ''" and "input_format \<noteq> ''BAM''"
  shows "check_samplesheet file_in fin input_format =
           \<lparr>fatal = Some invalid_format, out_file = None\<rparr> \<and>
         invalid_format =
           ''ERROR: Please check samplesheet -> INPUT_FORMAT needs to be either '' @
           [APOS] @ ''FASTQ'' @ [APOS] @ '' or '' @ [APOS] @ ''BAM'' @ [APOS]"
  using assms
  by (simp add: check_samplesheet_def read_samplesheet_def invalid_format_def print_error_def)

theorem invalid_format_fatal_witness:
  "''XML'' \<noteq> ''FASTQ'' \<and> ''XML'' \<noteq> ''BAM'' \<and>
   check_samplesheet ''samplesheet.csv''
     [''sample,fastq_1,fastq_2'' @ [NL], ''S1,S1_R1.fastq.gz,S1_R2.fastq.gz'' @ [NL]] ''XML'' =
     \<lparr>fatal = Some invalid_format, out_file = None\<rparr>"
  using invalid_format_fatal [of "''XML''" "''samplesheet.csv''"
      "[''sample,fastq_1,fastq_2'' @ [NL], ''S1,S1_R1.fastq.gz,S1_R2.fastq.gz'' @ [NL]]"]
  by simp

section \<open>The column count\<close>

text \<open>
  Claim C8. The header is compared through its required columns only: the header check
  has fixed the first columns of the header line to the required ones, 3 in FASTQ mode
  and 2 in BAM mode, and further columns of the header line are ignored. A row ends with
  the invalid-column-count message exactly when it has fewer comma-separated fields than
  these; a row with at least as many passes this check. The message cites the stripped
  line, and a run that reaches such a row stops with it before the output file is opened.
  Under the header line \<open>sample,bam,extra\<close> the two-field row \<open>S1,S1.bam\<close> passes, as
  the last conjunct of the witness shows.
\<close>

theorem column_count_check:
  "length HEADER_FASTQ = 3 \<and> length HEADER_BAM = 2 \<and>
   (fastq_row line = Inl (invalid_columns 3 line) \<longleftrightarrow> length (row_fields line) < 3) \<and>
   (bam_row line = Inl (invalid_columns 2 line) \<longleftrightarrow> length (row_fields line) < 2) \<and>
   (line \<noteq> [] \<longrightarrow>
      invalid_columns 3 line =
        ''ERROR: Please check samplesheet -> Invalid number of columns (minimum = 3)!'' @ [NL] @
        ''Line: '' @ [APOS] @ strip line @ [APOS] \<and>
      invalid_columns 2 line =
        ''ERROR: Please check samplesheet -> Invalid number of columns (minimum = 2)!'' @ [NL] @
        ''Line: '' @ [APOS] @ strip line @ [APOS]) \<and>
   (\<forall>file_in fin pre post d.
      take 3 (read_header fin) = HEADER_FASTQ \<and> tl fin = pre @ line # post \<and>
      fastq_entries [] pre = Inr d \<and> length (row_fields line) < 3 \<longrightarrow>
      check_samplesheet file_in fin ''FASTQ'' =
        \<lparr>fatal = Some (invalid_columns 3 line), out_file = None\<rparr>) \<and>
   (\<forall>file_in fin pre post d.
      take 2 (read_header fin) = HEADER_BAM \<and> tl fin = pre @ line # post \<and>
      bam_entries [] pre = Inr d \<and> length (row_fields line) < 2 \<longrightarrow>
      check_samplesheet file_in fin ''BAM'' =
        \<lparr>fatal = Some (invalid_columns 2 line), out_file = None\<rparr>)"
proof -
  have lf: "length HEADER_FASTQ = 3" and lb: "length HEADER_BAM = 2"
    by (simp_all add: HEADER_FASTQ_def HEADER_BAM_def)
  have f: "fastq_row line = Inl (invalid_columns 3 line) \<longleftrightarrow> length (row_fields line) < 3"
    using fastq_row_columns [of line] by (simp only: lf)
  have b: "bam_row line = Inl (invalid_columns 2 line) \<longleftrightarrow> length (row_fields line) < 2"
    using bam_row_columns [of line] by (simp only: lb)
  have rf: "check_samplesheet file_in fin ''FASTQ'' =
        \<lparr>fatal = Some (invalid_columns 3 line), out_file = None\<rparr>"
    if "take 3 (read_header fin) = HEADER_FASTQ" "tl fin = pre @ line # post"
      "fastq_entries [] pre = Inr d" "length (row_fields line) < 3" for file_in fin pre post d
    using fastq_run_row_fails [of fin pre line post d "invalid_columns 3 line" file_in] that f
    by (simp add: lf)
  have rb: "check_samplesheet file_in fin ''BAM'' =
        \<lparr>fatal = Some (invalid_columns 2 line), out_file = None\<rparr>"
    if "take 2 (read_header fin) = HEADER_BAM" "tl fin = pre @ line # post"
      "bam_entries [] pre = Inr d" "length (row_fields line) < 2" for file_in fin pre post d
    using bam_run_row_fails [of fin pre line post d "invalid_columns 2 line" file_in] that b
    by (simp add: lb)
  show ?thesis
    using lf lb f b invalid_columns_text [of line] rf rb by blast
qed

theorem column_count_check_witness:
  "fastq_row (''S1,a.fq.gz'' @ [NL]) = Inl (invalid_columns 3 (''S1,a.fq.gz'' @ [NL])) \<and>
   fastq_row (''S1,a.fq.gz,'' @ [NL]) \<noteq> Inl (invalid_columns 3 (''S1,a.fq.gz,'' @ [NL])) \<and>
   invalid_columns 3 (''S1,a.fq.gz'' @ [NL]) =
     ''ERROR: Please check samplesheet -> Invalid number of columns (minimum = 3)!'' @ [NL] @
     ''Line: '' @ [APOS] @ ''S1,a.fq.gz'' @ [APOS] \<and>
   check_samplesheet ''samplesheet.csv''
     [''sample,fastq_1,fastq_2'' @ [NL], ''S0,x.fq.gz,'' @ [NL], ''S1,a.fq.gz'' @ [NL]] ''FASTQ'' =
     \<lparr>fatal = Some (invalid_columns 3 (''S1,a.fq.gz'' @ [NL])), out_file = None\<rparr> \<and>
   check_samplesheet ''samplesheet.csv''
     [''sample,bam'' @ [NL], ''S0,x.bam'' @ [NL], ''S1'' @ [NL]] ''BAM'' =
     \<lparr>fatal = Some (invalid_columns 2 (''S1'' @ [NL])), out_file = None\<rparr> \<and>
   bam_row (''S1,S1.bam'' @ [NL]) \<noteq> Inl (invalid_columns 2 (''S1,S1.bam'' @ [NL])) \<and>
   check_samplesheet ''samplesheet.csv'' [''sample,bam,extra'' @ [NL], ''S1,S1.bam'' @ [NL]] ''BAM'' =
     \<lparr>fatal = None, out_file = Some (''sample,idx,bam'' @ [NL] @ ''S1,1,S1.bam'' @ [NL])\<rparr>"
proof -
  let ?l = "''S1,a.fq.gz'' @ [NL]"
  let ?fin = "[''sample,fastq_1,fastq_2'' @ [NL], ''S0,x.fq.gz,'' @ [NL], ?l]"
  let ?bin = "[''sample,bam'' @ [NL], ''S0,x.bam'' @ [NL], ''S1'' @ [NL]]"
  have l3: "length (row_fields ?l) < 3" by code_simp
  have g3: "\<not> length (row_fields (''S1,a.fq.gz,'' @ [NL])) < 3" by code_simp
  have ne: "?l \<noteq> []" by simp
  have st: "strip ?l = ''S1,a.fq.gz''" by code_simp
  have h: "take 3 (read_header ?fin) = HEADER_FASTQ" by code_simp
  have t: "tl ?fin = [''S0,x.fq.gz,'' @ [NL]] @ ?l # []" by simp
  have p: "fastq_entries [] [''S0,x.fq.gz,'' @ [NL]] = Inr [(''S0'', [[''1'', ''x.fq.gz'', []]])]"
    by code_simp
  have l2: "length (row_fields (''S1'' @ [NL])) < 2" by code_simp
  have hb: "take 2 (read_header ?bin) = HEADER_BAM" by code_simp
  have tb: "tl ?bin = [''S0,x.bam'' @ [NL]] @ (''S1'' @ [NL]) # []" by simp
  have pb: "bam_entries [] [''S0,x.bam'' @ [NL]] = Inr [(''S0'', [[''1'', ''x.bam'']])]"
    by code_simp
  note a = column_count_check [of ?l]
  note b = column_count_check [of "''S1,a.fq.gz,'' @ [NL]"]
  note c = column_count_check [of "''S1'' @ [NL]"]
  have 1: "fastq_row ?l = Inl (invalid_columns 3 ?l)" using a l3 by blast
  have 2: "fastq_row (''S1,a.fq.gz,'' @ [NL]) \<noteq> Inl (invalid_columns 3 (''S1,a.fq.gz,'' @ [NL]))"
    using b g3 by blast
  have 3: "invalid_columns 3 ?l =
     ''ERROR: Please check samplesheet -> Invalid number of columns (minimum = 3)!'' @ [NL] @
     ''Line: '' @ [APOS] @ ''S1,a.fq.gz'' @ [APOS]"
    using a ne st by simp
  have 4: "check_samplesheet ''samplesheet.csv'' ?fin ''FASTQ'' =
     \<lparr>fatal = Some (invalid_columns 3 ?l), out_file = None\<rparr>"
    using a h t p l3 by blast
  have 5: "check_samplesheet ''samplesheet.csv'' ?bin ''BAM'' =
     \<lparr>fatal = Some (invalid_columns 2 (''S1'' @ [NL])), out_file = None\<rparr>"
    using c hb tb pb l2 by blast
  have g2: "\<not> length (row_fields (''S1,S1.bam'' @ [NL])) < 2" by code_simp
  have 6: "bam_row (''S1,S1.bam'' @ [NL]) \<noteq> Inl (invalid_columns 2 (''S1,S1.bam'' @ [NL]))"
    using column_count_check [of "''S1,S1.bam'' @ [NL]"] g2 by blast
  have 7: "check_samplesheet ''samplesheet.csv''
      [''sample,bam,extra'' @ [NL], ''S1,S1.bam'' @ [NL]] ''BAM'' =
     \<lparr>fatal = None, out_file = Some (''sample,idx,bam'' @ [NL] @ ''S1,1,S1.bam'' @ [NL])\<rparr>"
    by code_simp
  show ?thesis using 1 2 3 4 5 6 7 by blast
qed

section \<open>An empty BAM field\<close>

text \<open>
  Claim C9, as stated, lets every BAM row with an empty \<open>bam\<close> field and two populated
  fields pass every check. The row \<open>,,a,b\<close> has an empty \<open>bam\<close> field and two populated
  fields, and ends the run with the missing-sample message; and of two rows \<open>S1,,x\<close>
  and \<open>S1,,y\<close> the second repeats the recorded tuple of the first and ends the run with
  the duplicate message.
\<close>

theorem empty_bam_counterexample:
  "row_fields ('',,a,b'' @ [NL]) ! 1 = [] \<and> populated (row_fields ('',,a,b'' @ [NL])) = 2 \<and>
   check_samplesheet ''samplesheet.csv'' [''sample,bam'' @ [NL], '',,a,b'' @ [NL]] ''BAM'' =
     \<lparr>fatal = Some (print_error ''Sample entry has not been specified!'' ''Line''
                       ('',,a,b'' @ [NL])),
      out_file = None\<rparr> \<and>
   row_fields (''S1,,y'' @ [NL]) ! 1 = [] \<and> populated (row_fields (''S1,,y'' @ [NL])) = 2 \<and>
   check_samplesheet ''samplesheet.csv''
     [''sample,bam'' @ [NL], ''S1,,x'' @ [NL], ''S1,,y'' @ [NL]] ''BAM'' =
     \<lparr>fatal = Some (print_error ''Samplesheet contains duplicate rows!'' ''Line''
                       (''S1,,y'' @ [NL])),
      out_file = None\<rparr>"
  by code_simp

text \<open>
  Claim C9, amended. In BAM mode a row with a sample name, an empty \<open>bam\<close> field and at
  least two populated fields passes the checks of the row: the space and extension checks
  are skipped. Whatever the mapping holds when the row is read, the tuple with the empty
  string as file is appended to the tuples recorded for the sample, unless the sample
  already has that tuple: then the run stops with the duplicate-rows message. In every
  sheet with the required header whose rows all pass and do not repeat, the run returns
  normally and the output holds the row \<open>sample,1,\<close>, whose last column is empty.
\<close>

theorem empty_bam_field:
  assumes "2 \<le> populated (row_fields line)"
    and "row_fields line ! 0 \<noteq> []"
    and "row_fields line ! 1 = []"
  shows "bam_row line = Inr (replace (CHR 0x20) (CHR ''_'') (row_fields line ! 0), [''1'', []]) \<and>
         (\<forall>d. [''1'', []] \<notin> set (recorded d (replace (CHR 0x20) (CHR ''_'') (row_fields line ! 0))) \<longrightarrow>
            (\<exists>d'. bam_entries d [line] = Inr d' \<and>
               map_of d' =
                 (map_of d)(replace (CHR 0x20) (CHR ''_'') (row_fields line ! 0) \<mapsto>
                   recorded d (replace (CHR 0x20) (CHR ''_'') (row_fields line ! 0)) @
                   [[''1'', []]]))) \<and>
         (\<forall>d. [''1'', []] \<in> set (recorded d (replace (CHR 0x20) (CHR ''_'') (row_fields line ! 0))) \<longrightarrow>
            bam_entries d [line] = Inl (duplicate_rows line)) \<and>
         (\<forall>file_in fin rows.
            take (length HEADER_BAM) (read_header fin) = HEADER_BAM \<and>
            line \<in> set (tl fin) \<and> map bam_row (tl fin) = map Inr rows \<and> distinct rows \<longrightarrow>
            check_samplesheet file_in fin ''BAM'' =
              \<lparr>fatal = None,
               out_file = Some (''sample,idx,bam'' @ [NL] @ concat (spec_bam_rows rows))\<rparr> \<and>
            replace (CHR 0x20) (CHR ''_'') (row_fields line ! 0) @ '',1,'' @ [NL]
              \<in> set (spec_bam_rows rows)) \<and>
         (\<forall>file_in hdr.
            take (length HEADER_BAM) (read_header [hdr, line]) = HEADER_BAM \<longrightarrow>
            check_samplesheet file_in [hdr, line] ''BAM'' =
              \<lparr>fatal = None,
               out_file = Some (''sample,idx,bam'' @ [NL] @
                 replace (CHR 0x20) (CHR ''_'') (row_fields line ! 0) @ '',1,'' @ [NL])\<rparr>)"
proof -
  let ?s = "replace (CHR 0x20) (CHR ''_'') (row_fields line ! 0)"
  have len: "2 \<le> length (row_fields line)"
    using assms(1) populated_le_length [of "row_fields line"] by simp
  have s: "?s \<noteq> []" using assms(2) by (simp add: replace_Nil_iff)
  have row: "bam_row line = Inr (?s, [''1'', []])"
    using len assms s by (simp add: bam_row_def Let_def HEADER_BAM_def MIN_COLS_def)
  have fresh: "\<forall>d. [''1'', []] \<notin> set (recorded d ?s) \<longrightarrow>
            (\<exists>d'. bam_entries d [line] = Inr d' \<and>
               map_of d' = (map_of d)(?s \<mapsto> recorded d ?s @ [[''1'', []]]))"
    using bam_entries_one_fresh [OF row] by blast
  have repeat: "\<forall>d. [''1'', []] \<in> set (recorded d ?s) \<longrightarrow>
            bam_entries d [line] = Inl (duplicate_rows line)"
    using bam_entries_one_repeat [OF row] by blast
  have sheet: "check_samplesheet file_in fin ''BAM'' =
              \<lparr>fatal = None,
               out_file = Some (''sample,idx,bam'' @ [NL] @ concat (spec_bam_rows rows))\<rparr> \<and>
            ?s @ '',1,'' @ [NL] \<in> set (spec_bam_rows rows)"
    if "take (length HEADER_BAM) (read_header fin) = HEADER_BAM \<and>
        line \<in> set (tl fin) \<and> map bam_row (tl fin) = map Inr rows \<and> distinct rows"
    for file_in fin rows
  proof -
    from that have h: "take (length HEADER_BAM) (read_header fin) = HEADER_BAM"
      and l: "line \<in> set (tl fin)" and r: "map bam_row (tl fin) = map Inr rows"
      and d: "distinct rows" by simp_all
    have mem: "(?s, [''1'', []]) \<in> set rows" by (rule row_in_parsed [OF l r row])
    then have ne: "rows \<noteq> []" by auto
    have "join '','' (?s # [''1'', []]) @ [NL] \<in> set (spec_bam_rows rows)"
      by (rule in_spec_bam_rows [OF mem])
    then have "?s @ '',1,'' @ [NL] \<in> set (spec_bam_rows rows)" by simp
    with bam_valid_run [OF h r ne d, of file_in] show ?thesis by simp
  qed
  have one: "check_samplesheet file_in [hdr, line] ''BAM'' =
      \<lparr>fatal = None, out_file = Some (''sample,idx,bam'' @ [NL] @ ?s @ '',1,'' @ [NL])\<rparr>"
    if "take (length HEADER_BAM) (read_header [hdr, line]) = HEADER_BAM" for file_in hdr
  proof -
    from that have "read_samplesheet [hdr, line] ''BAM'' = Inr [(?s, [[''1'', []]])]"
      using row by (simp add: read_samplesheet_def record_sample_def)
    then show ?thesis
      by (simp add: check_samplesheet_def bam_lines_def BAM_OUT_HEADER_def)
  qed
  have sheet': "\<forall>file_in fin rows.
            take (length HEADER_BAM) (read_header fin) = HEADER_BAM \<and>
            line \<in> set (tl fin) \<and> map bam_row (tl fin) = map Inr rows \<and> distinct rows \<longrightarrow>
            check_samplesheet file_in fin ''BAM'' =
              \<lparr>fatal = None,
               out_file = Some (''sample,idx,bam'' @ [NL] @ concat (spec_bam_rows rows))\<rparr> \<and>
            ?s @ '',1,'' @ [NL] \<in> set (spec_bam_rows rows)"
    using sheet by blast
  have one': "\<forall>file_in hdr.
            take (length HEADER_BAM) (read_header [hdr, line]) = HEADER_BAM \<longrightarrow>
            check_samplesheet file_in [hdr, line] ''BAM'' =
              \<lparr>fatal = None,
               out_file = Some (''sample,idx,bam'' @ [NL] @ ?s @ '',1,'' @ [NL])\<rparr>"
    using one by blast
  show ?thesis by (intro conjI row fresh repeat sheet' one')
qed

theorem empty_bam_field_witness:
  "bam_row (''S1,,extra'' @ [NL]) = Inr (''S1'', [''1'', []]) \<and>
   check_samplesheet ''samplesheet.csv'' [''sample,bam'' @ [NL], ''S1,,extra'' @ [NL]] ''BAM'' =
     \<lparr>fatal = None, out_file = Some (''sample,idx,bam'' @ [NL] @ ''S1,1,'' @ [NL])\<rparr> \<and>
   check_samplesheet ''samplesheet.csv''
     [''sample,bam'' @ [NL], ''S0,x.bam'' @ [NL], ''S1,,extra'' @ [NL], ''S1,y.bam'' @ [NL]] ''BAM'' =
     \<lparr>fatal = None,
      out_file = Some (''sample,idx,bam'' @ [NL] @ ''S0,1,x.bam'' @ [NL] @ ''S1,1,'' @ [NL] @
                       ''S1,1,y.bam'' @ [NL])\<rparr> \<and>
   (\<exists>d'. bam_entries [(''S1'', [[''1'', ''y.bam'']])] [''S1,,extra'' @ [NL]] = Inr d' \<and>
      map_of d' ''S1'' = Some [[''1'', ''y.bam''], [''1'', []]]) \<and>
   bam_entries [(''S1'', [[''1'', []]])] [''S1,,extra'' @ [NL]] =
     Inl (duplicate_rows (''S1,,extra'' @ [NL]))"
proof -
  let ?l = "''S1,,extra'' @ [NL]"
  have p: "2 \<le> populated (row_fields ?l)" by code_simp
  have s: "row_fields ?l ! 0 \<noteq> []" by code_simp
  have b: "row_fields ?l ! 1 = []" by code_simp
  have r: "replace (CHR 0x20) (CHR ''_'') (row_fields ?l ! 0) = ''S1''" by code_simp
  note T = empty_bam_field [OF p s b, unfolded r]
  have 1: "bam_row ?l = Inr (''S1'', [''1'', []])" using T by blast
  have h: "take (length HEADER_BAM) (read_header [''sample,bam'' @ [NL], ?l]) = HEADER_BAM"
    by code_simp
  have 2: "check_samplesheet ''samplesheet.csv'' [''sample,bam'' @ [NL], ?l] ''BAM'' =
     \<lparr>fatal = None, out_file = Some (''sample,idx,bam'' @ [NL] @ ''S1,1,'' @ [NL])\<rparr>"
    using T h by simp
  let ?fin = "[''sample,bam'' @ [NL], ''S0,x.bam'' @ [NL], ?l, ''S1,y.bam'' @ [NL]]"
  let ?rows = "[(''S0'', [''1'', ''x.bam'']), (''S1'', [''1'', []]), (''S1'', [''1'', ''y.bam''])]"
  have h3: "take (length HEADER_BAM) (read_header ?fin) = HEADER_BAM" by code_simp
  have l3: "?l \<in> set (tl ?fin)" by simp
  have r3: "map bam_row (tl ?fin) = map Inr ?rows" by code_simp
  have d3: "distinct ?rows" by simp
  have o3: "concat (spec_bam_rows ?rows) =
      ''S0,1,x.bam'' @ [NL] @ ''S1,1,'' @ [NL] @ ''S1,1,y.bam'' @ [NL]" by code_simp
  have "check_samplesheet ''samplesheet.csv'' ?fin ''BAM'' =
      \<lparr>fatal = None,
       out_file = Some (''sample,idx,bam'' @ [NL] @ concat (spec_bam_rows ?rows))\<rparr>"
    using T h3 l3 r3 d3 by blast
  then have 3: "check_samplesheet ''samplesheet.csv'' ?fin ''BAM'' =
     \<lparr>fatal = None,
      out_file = Some (''sample,idx,bam'' @ [NL] @ ''S0,1,x.bam'' @ [NL] @ ''S1,1,'' @ [NL] @
                       ''S1,1,y.bam'' @ [NL])\<rparr>"
    by (simp only: o3)
  let ?d = "[(''S1'', [[''1'', ''y.bam'']])]"
  have rd: "recorded ?d ''S1'' = [[''1'', ''y.bam'']]" by (simp add: recorded_def)
  have "[''1'', []] \<notin> set (recorded ?d ''S1'')" by (simp add: rd)
  with T obtain d' where "bam_entries ?d [?l] = Inr d'"
    "map_of d' = (map_of ?d)(''S1'' \<mapsto> recorded ?d ''S1'' @ [[''1'', []]])"
    by blast
  then have 4: "\<exists>d'. bam_entries ?d [?l] = Inr d' \<and>
      map_of d' ''S1'' = Some [[''1'', ''y.bam''], [''1'', []]]"
    by (simp add: rd)
  have "[''1'', []] \<in> set (recorded [(''S1'', [[''1'', []]])] ''S1'')"
    by (simp add: recorded_def)
  with T have 5: "bam_entries [(''S1'', [[''1'', []]])] [?l] = Inl (duplicate_rows ?l)"
    by blast
  show ?thesis using 1 2 3 4 5 by blast
qed

section \<open>Partial output on the datatype error\<close>

text \<open>
  Claim C10. In FASTQ mode, when the reading of the rows succeeds and some sample mixes
  classifications, the run stops at the least such sample \<open>s\<close> with the datatype message;
  the output file exists by then and holds the header line and the rows of all samples
  below \<open>s\<close> in the order of the names.
\<close>

theorem datatype_error_partial_output:
  assumes header: "take (length HEADER_FASTQ) (read_header fin) = HEADER_FASTQ"
    and rows: "map fastq_row (tl fin) = map Inr rows"
    and no_duplicates: "distinct rows"
    and mixed: "\<not> consistent rows"
  shows "\<exists>s \<in> fst ` set rows.
           \<not> same_datatype (runs_of s rows) \<and>
           (\<forall>k \<in> fst ` set rows. k < s \<longrightarrow> same_datatype (runs_of k rows)) \<and>
           check_samplesheet file_in fin ''FASTQ'' =
             \<lparr>fatal = Some (datatype_error s),
              out_file = Some (''sample,single_end,fastq_1,fastq_2'' @ [NL] @
                concat (map (\<lambda>k. spec_fastq_lines k (runs_of k rows))
                  (filter (\<lambda>k. k < s) (sort (remdups (map fst rows))))))\<rparr>"
proof -
  from entries_success [OF groups_Nil rows] no_duplicates obtain d
    where d: "entries fastq_row [] (tl fin) = Inr d" and g: "groups rows d"
    by auto
  have read: "read_samplesheet fin ''FASTQ'' = Inr d"
    using header d by (simp add: read_samplesheet_def fastq_entries_eq)
  let ?ks = "sort (remdups (map fst rows))"
  have ks: "sort (map fst d) = ?ks" by (rule groups_sort_keys [OF g])
  have set_ks: "set ?ks = fst ` set rows" by simp
  from mixed obtain s0 where "\<not> same_datatype (runs_of s0 rows)"
    by (auto simp: consistent_iff)
  then have "s0 \<in> set ?ks" using same_datatype_no_runs [of s0 rows] by auto
  with \<open>\<not> same_datatype (runs_of s0 rows)\<close>
  have "\<exists>k \<in> set ?ks. \<not> same_datatype (runs_of k rows)" by blast
  from split_list_first_prop [OF this] obtain pre s post
    where split: "?ks = pre @ s # post" and bad: "\<not> same_datatype (runs_of s rows)"
      and good: "\<forall>k \<in> set pre. \<not> \<not> same_datatype (runs_of k rows)"
    by blast
  have sorted: "sorted (pre @ s # post)" and dist: "distinct (pre @ s # post)"
    using split [symmetric] by simp_all
  have earlier: "filter (\<lambda>k. k < s) ?ks = pre"
    unfolding split by (rule sorted_distinct_filter_less [OF sorted dist])
  have s_in: "s \<in> fst ` set rows" using set_ks split by auto
  have nonempty: "rows \<noteq> []" using s_in by auto
  have lookup: "map_of d k = Some (runs_of k rows)" if "k \<in> set ?ks" for k
    using groups_lookup [OF g] that ks by simp
  have pre_ok: "\<forall>k \<in> set pre. map_of d k = Some (runs_of k rows) \<and> same_datatype (runs_of k rows)"
    using good lookup split by auto
  have s_lookup: "map_of d s = Some (runs_of s rows)" using lookup split by auto
  have w: "write_fastq d (sort (map fst d)) FASTQ_OUT_HEADER =
      (Some (datatype_error s),
       FASTQ_OUT_HEADER @ concat (map (\<lambda>k. fastq_lines k (runs_of k rows)) pre))"
    unfolding ks split by (rule write_fastq_fail [OF pre_ok s_lookup bad])
  have least: "\<forall>k \<in> fst ` set rows. k < s \<longrightarrow> same_datatype (runs_of k rows)"
  proof (intro ballI impI)
    fix k assume "k \<in> fst ` set rows" and "k < s"
    then have "k \<in> set (filter (\<lambda>k. k < s) ?ks)" by simp
    then have "k \<in> set pre" by (simp only: earlier)
    with good show "same_datatype (runs_of k rows)" by blast
  qed
  have run: "check_samplesheet file_in fin ''FASTQ'' =
      \<lparr>fatal = Some (datatype_error s),
       out_file = Some (''sample,single_end,fastq_1,fastq_2'' @ [NL] @
         concat (map (\<lambda>k. spec_fastq_lines k (runs_of k rows))
           (filter (\<lambda>k. k < s) ?ks)))\<rparr>"
    using read groups_nonempty [OF g nonempty] w
    by (simp add: check_samplesheet_def earlier fastq_lines_spec FASTQ_OUT_HEADER_def)
  from s_in bad least run show ?thesis by blast
qed

theorem datatype_error_partial_output_witness:
  "check_samplesheet ''samplesheet.csv''
     [''sample,fastq_1,fastq_2'' @ [NL], ''C,c.fq.gz,'' @ [NL], ''B,b1_1.fq.gz,b1_2.fq.gz'' @ [NL],
      ''A,a.fq.gz,'' @ [NL], ''B,b2.fq.gz,'' @ [NL]] ''FASTQ'' =
   \<lparr>fatal = Some ''ERROR: Please check samplesheet -> Multiple runs of a sample must be of the same datatype!'',
    out_file = Some (''sample,single_end,fastq_1,fastq_2'' @ [NL] @ ''A_T1,1,a.fq.gz,'' @ [NL])\<rparr>"
proof -
  let ?fin = "[''sample,fastq_1,fastq_2'' @ [NL], ''C,c.fq.gz,'' @ [NL],
      ''B,b1_1.fq.gz,b1_2.fq.gz'' @ [NL], ''A,a.fq.gz,'' @ [NL], ''B,b2.fq.gz,'' @ [NL]]"
  let ?rows = "[(''C'', [''1'', ''c.fq.gz'', '''']), (''B'', [''0'', ''b1_1.fq.gz'', ''b1_2.fq.gz'']),
      (''A'', [''1'', ''a.fq.gz'', '''']), (''B'', [''1'', ''b2.fq.gz'', ''''])]"
  have h: "take (length HEADER_FASTQ) (read_header ?fin) = HEADER_FASTQ" by code_simp
  have r: "map fastq_row (tl ?fin) = map Inr ?rows" by code_simp
  have d: "distinct ?rows" by simp
  have c: "\<not> consistent ?rows" by (simp add: consistent_def)
  from datatype_error_partial_output [OF h r d c, of "''samplesheet.csv''"]
  obtain s where s: "s \<in> fst ` set ?rows" and bad: "\<not> same_datatype (runs_of s ?rows)"
    and run: "check_samplesheet ''samplesheet.csv'' ?fin ''FASTQ'' =
             \<lparr>fatal = Some (datatype_error s),
              out_file = Some (''sample,single_end,fastq_1,fastq_2'' @ [NL] @
                concat (map (\<lambda>k. spec_fastq_lines k (runs_of k ?rows))
                  (filter (\<lambda>k. k < s) (sort (remdups (map fst ?rows))))))\<rparr>"
    by blast
  have "s = ''B''"
  proof -
    from s have "s = ''C'' \<or> s = ''B'' \<or> s = ''A''" by auto
    moreover have "same_datatype (runs_of ''C'' ?rows)" by code_simp
    moreover have "same_datatype (runs_of ''A'' ?rows)" by code_simp
    ultimately show ?thesis using bad by auto
  qed
  moreover have "datatype_error ''B'' =
      ''ERROR: Please check samplesheet -> Multiple runs of a sample must be of the same datatype!''"
    by code_simp
  moreover have "concat (map (\<lambda>k. spec_fastq_lines k (runs_of k ?rows))
                  (filter (\<lambda>k. k < ''B'') (sort (remdups (map fst ?rows))))) =
      ''A_T1,1,a.fq.gz,'' @ [NL]"
    by code_simp
  ultimately show ?thesis using run by simp
qed

end
